theory Spec2Isabelle
  imports Main "HOL-Library.Word"
begin

unbundle bit_operations_syntax

section \<open>Icon conversion of app-builder: the ICNS encoder and the conversion pipeline\<close>

text \<open>
  The embedding follows \<^verbatim>\<open>src/icons/icns.go\<close>. Go's \<^verbatim>\<open>[]byte\<close> is a list of 8-bit
  words, a Go \<^verbatim>\<open>string\<close> is a \<^typ>\<open>string\<close>, Go's \<^verbatim>\<open>int\<close> is \<^typ>\<open>int\<close> (it is only
  compared and stored), and the one place where the code narrows an integer,
  \<^verbatim>\<open>uint32(len(...)+8)\<close>, is a conversion into \<^typ>\<open>32 word\<close>, which wraps modulo \<open>2^32\<close>.

  A function of the source is one definition here, or a few where it has a loop or long
  branches; the lines of the source each one follows:
  \<^item> \<open>icnsHeader\<close>, \<open>icnsExpectedSizes\<close>, \<open>sizeToType\<close>: 15-30;
  \<^item> \<open>ConvertToIcns\<close>: 32-105, with its loop \<open>icnsLoop\<close>: 36-87, the payload of one size
    \<open>imageDataFor\<close>: 42-65, and the chunks of one size \<open>writeChunks\<close>: 67-86;
  \<^item> \<open>resolveSourceFileOrNull\<close>: 122-146, with its loop \<open>resolveInRoots\<close>: 132-145;
  \<^item> \<open>resolveSourceFile\<close>: 148-177, with its loop \<open>resolveCandidates\<close>: 149-174;
  \<^item> \<open>InputFileInfo\<close>: 179-187; \<open>GetMaxImage\<close>: 189-198; \<open>validateImageSize\<close>: 200-224;
    \<open>outputFormatToSingleFileExtension\<close>: 226-231; \<open>loadImage\<close>: 334-345;
  \<^item> \<open>ConvertIcon\<close>: 233-332, with the fresh input info \<open>newInputInfo\<close>: 241-248, the
    directory branch \<open>ConvertIcon_dir\<close> and \<open>dirInputInfo\<close>: 263-279, the single-file branch
    \<open>ConvertIcon_file\<close>: 280-302, and the final switch \<open>ConvertIcon_switch\<close>: 304-331.
\<close>

subsection \<open>Data\<close>

type_synonym byte = "8 word"

text \<open>\<^verbatim>\<open>image.Point\<close>, \<^verbatim>\<open>image.Rectangle\<close> and a decoded \<^verbatim>\<open>image.Image\<close>: the code reads an
  image only through \<^verbatim>\<open>Bounds().Max.X\<close> and \<^verbatim>\<open>Bounds().Max.Y\<close>; the pixels are opaque.\<close>

record Point =
  X :: int
  Y :: int

record Rectangle =
  Min_pt :: Point
  Max_pt :: Point

record image =
  Bounds :: Rectangle
  Pix :: "nat list"

text \<open>\<^verbatim>\<open>os.FileInfo\<close>, of which only \<^verbatim>\<open>IsDir()\<close> is used.\<close>

record FileInfo =
  IsDir :: bool

record IconInfo =
  File :: string
  Size :: int

text \<open>The lazily decoded master image is the field \<^verbatim>\<open>maxImage\<close>, which \<^verbatim>\<open>ConvertToIcns\<close>
  spells \<^verbatim>\<open>MaxImage\<close>; a nil image is \<open>None\<close>.\<close>

record InputFileInfo =
  MaxIconSize :: int
  MaxIconPath :: string
  SizeToPath :: "int \<rightharpoonup> string"
  maxImage :: "image option"
  recommendedMinSize :: int

text \<open>
  Errors are values. \<open>External\<close> is an error handed back by a collaborator (the operating
  system, a decoder, an encoder), \<open>ImageSizeError\<close> is \<^verbatim>\<open>NewImageSizeError(file, minSize)\<close>,
  \<open>Errorf\<close> is an error built by \<^verbatim>\<open>errors.Errorf\<close> or \<^verbatim>\<open>fmt.Errorf\<close> with its formatted
  message, \<open>WithStack\<close> is \<^verbatim>\<open>errors.WithStack\<close>, and \<open>Panic\<close> is a run-time panic.
\<close>

datatype error =
    External string
  | ImageSizeError string int
  | Errorf string
  | WithStack error
  | Panic string

text \<open>\<^verbatim>\<open>errors.Cause\<close>: the error under all the \<^verbatim>\<open>WithStack\<close> wrappers.\<close>

fun Cause :: "error \<Rightarrow> error" where
  "Cause (WithStack e) = Cause e"
| "Cause (External m) = External m"
| "Cause (ImageSizeError f n) = ImageSizeError f n"
| "Cause (Errorf m) = Errorf m"
| "Cause (Panic m) = Panic m"

text \<open>
  Every call that leaves the process is recorded as an event, in the order the code
  makes it, so that what a run did (and did not do) can be stated.
\<close>

datatype event =
    EvStat string
  | EvReadFile string
  | EvLoadImage string
  | EvReadHead string
  | EvDecodeImageConfig string
  | EvCollectIcons string
  | EvConvertIcnsToPng string
  | EvTempFile string
  | EvWrite string "byte list"
  | EvSaveImage2 image string

type_synonym 'a result = "event list \<times> (error + 'a)"

text \<open>
  The collaborators the code calls but does not define: the path functions and the file
  system of the standard library, the image library and the PNG encoder, and the helpers
  of the repository whose files are not among the sources (\<^verbatim>\<open>LoadImage\<close>,
  \<^verbatim>\<open>DecodeImageConfig\<close>, \<^verbatim>\<open>IsIco\<close>, \<^verbatim>\<open>GetIcoSizes\<close>, \<^verbatim>\<open>SaveImage2\<close>, \<^verbatim>\<open>CollectIcons\<close>,
  \<^verbatim>\<open>ConvertIcnsToPng\<close>, \<^verbatim>\<open>fs.ReadFile\<close>, \<^verbatim>\<open>util.TempFile\<close>). Each is a parameter; a
  failing call returns \<open>Inl\<close> with its message. The world is fixed during a run: a call
  with the same argument gives the same answer. \<^verbatim>\<open>log.Debug\<close> calls are left out.
\<close>

record env =
  filepath_IsAbs :: "string \<Rightarrow> bool"
  filepath_Clean :: "string \<Rightarrow> string"
  filepath_Join :: "string \<Rightarrow> string \<Rightarrow> string"
  os_Stat :: "string \<Rightarrow> string + FileInfo"
  ioutil_ReadFile :: "string \<Rightarrow> string + byte list"
  fs_ReadFile :: "string \<Rightarrow> int \<Rightarrow> string + byte list"
  LoadImage :: "string \<Rightarrow> string + image"
  DecodeImageConfig :: "string \<Rightarrow> string + (int \<times> int)"
  IsIco :: "byte list \<Rightarrow> bool"
  GetIcoSizes :: "byte list \<Rightarrow> (int \<times> int) list"
  imaging_Resize :: "image \<Rightarrow> int \<Rightarrow> int \<Rightarrow> image"
  png_Encode :: "image \<Rightarrow> string + byte list"
  util_TempFile :: "string \<Rightarrow> string \<Rightarrow> string + string"
  SaveImage2 :: "image \<Rightarrow> string \<Rightarrow> string + unit"
  CollectIcons :: "string \<Rightarrow> string + IconInfo list"
  ConvertIcnsToPng :: "string \<Rightarrow> string + IconInfo list"

subsection \<open>The ICNS encoder\<close>

definition icnsHeader :: "byte list" where
  "icnsHeader = [0x69, 0x63, 0x6e, 0x73]"

definition icnsExpectedSizes :: "int list" where
  "icnsExpectedSizes = [16, 32, 64, 128, 256, 512, 1024]"

definition sizeToType_table :: "(int \<times> string list) list" where
  "sizeToType_table =
     [(16, [''icp4'']),
      (32, [''icp5'', ''ic11'']),
      (64, [''icp6'', ''ic12'']),
      (128, [''ic07'']),
      (256, [''ic08'', ''ic13'']),
      (512, [''ic09'', ''ic14'']),
      (1024, [''ic10''])]"

text \<open>Indexing a Go map with a missing key gives the zero value, here the empty slice.\<close>

definition sizeToType :: "int \<Rightarrow> string list" where
  "sizeToType sz = (case map_of sizeToType_table sz of None \<Rightarrow> [] | Some ts \<Rightarrow> ts)"

text \<open>\<^verbatim>\<open>[]byte(s)\<close>.\<close>

definition bytes_of :: "string \<Rightarrow> byte list" where
  "bytes_of s = map of_char s"

text \<open>\<^verbatim>\<open>binary.BigEndian.PutUint32\<close> into a fresh 4-byte slice.\<close>

definition PutUint32 :: "32 word \<Rightarrow> byte list" where
  "PutUint32 v = [ucast (drop_bit 24 v), ucast (drop_bit 16 v), ucast (drop_bit 8 v), ucast v]"

text \<open>\<^verbatim>\<open>uint32(n + 8)\<close> for a length \<open>n\<close>.\<close>

definition uint32_len8 :: "nat \<Rightarrow> 32 word" where
  "uint32_len8 n = of_nat (n + 8)"

text \<open>The inner loop: for every OSType of the size, three writes to the buffer.\<close>

definition writeChunks :: "int \<Rightarrow> byte list \<Rightarrow> byte list \<Rightarrow> byte list" where
  "writeChunks sz imageData icns =
     (let lengthBytes = PutUint32 (uint32_len8 (length imageData))
      in foldl (\<lambda>buf ostype. ((buf @ bytes_of ostype) @ lengthBytes) @ imageData)
           icns (sizeToType sz))"

text \<open>
  The payload of one size: the bytes of the existing file when the size has one, else
  the PNG encoding of the master resized to the size, the master being loaded on first
  use and kept in the (local copy of the) input info.
\<close>

definition imageDataFor :: "env \<Rightarrow> InputFileInfo \<Rightarrow> int \<Rightarrow> (InputFileInfo \<times> byte list) result" where
  "imageDataFor env inputInfo sz =
     (case SizeToPath inputInfo sz of
        Some existingFile \<Rightarrow>
          (case ioutil_ReadFile env existingFile of
             Inl e \<Rightarrow> ([EvReadFile existingFile], Inl (WithStack (External e)))
           | Inr imageData \<Rightarrow> ([EvReadFile existingFile], Inr (inputInfo, imageData)))
      | None \<Rightarrow>
          (case maxImage inputInfo of
             None \<Rightarrow>
               (case LoadImage env (MaxIconPath inputInfo) of
                  Inl e \<Rightarrow> ([EvLoadImage (MaxIconPath inputInfo)], Inl (WithStack (External e)))
                | Inr img \<Rightarrow>
                    (case png_Encode env (imaging_Resize env img sz sz) of
                       Inl e \<Rightarrow> ([EvLoadImage (MaxIconPath inputInfo)], Inl (WithStack (External e)))
                     | Inr imageData \<Rightarrow>
                         ([EvLoadImage (MaxIconPath inputInfo)],
                          Inr (inputInfo\<lparr>maxImage := Some img\<rparr>, imageData))))
           | Some img \<Rightarrow>
               (case png_Encode env (imaging_Resize env img sz sz) of
                  Inl e \<Rightarrow> ([], Inl (WithStack (External e)))
                | Inr imageData \<Rightarrow> ([], Inr (inputInfo, imageData)))))"

text \<open>The outer loop over the expected sizes; a size above the maximum is skipped. The
  info is the callee's copy of the struct, so the image it caches lives as long as the
  loop.\<close>

fun icnsLoop :: "env \<Rightarrow> int list \<Rightarrow> InputFileInfo \<Rightarrow> byte list \<Rightarrow> (InputFileInfo \<times> byte list) result" where
  "icnsLoop env [] inputInfo icns = ([], Inr (inputInfo, icns))"
| "icnsLoop env (sz # sizes) inputInfo icns =
     (if sz > MaxIconSize inputInfo then icnsLoop env sizes inputInfo icns
      else
        (case imageDataFor env inputInfo sz of
           (tr, Inl e) \<Rightarrow> (tr, Inl e)
         | (tr, Inr (inputInfo', imageData)) \<Rightarrow>
             (case icnsLoop env sizes inputInfo' (writeChunks sz imageData icns) of
                (tr', r) \<Rightarrow> (tr @ tr', r))))"

text \<open>After the loop: the length field of the whole file, the output file, and the three
  writes, whose results the code does not look at; the deferred \<^verbatim>\<open>Close\<close> is left out.\<close>

definition ConvertToIcns :: "env \<Rightarrow> InputFileInfo \<Rightarrow> string result" where
  "ConvertToIcns env inputInfo =
     (case icnsLoop env icnsExpectedSizes inputInfo [] of
        (tr, Inl e) \<Rightarrow> (tr, Inl e)
      | (tr, Inr (inputInfo', icns)) \<Rightarrow>
          (let lengthBytes = PutUint32 (uint32_len8 (length icns))
           in case util_TempFile env [] ''.icns'' of
                Inl e \<Rightarrow> (tr @ [EvTempFile ''.icns''], Inl (WithStack (External e)))
              | Inr outFile \<Rightarrow>
                  (tr @ [EvTempFile ''.icns'',
                         EvWrite outFile icnsHeader,
                         EvWrite outFile lengthBytes,
                         EvWrite outFile icns],
                   Inr outFile)))"

subsection \<open>Source resolution\<close>

text \<open>The loop of \<^verbatim>\<open>resolveSourceFileOrNull\<close> over the roots, for a relative name. A root
  under which \<^verbatim>\<open>os.Stat\<close> fails, for whatever reason, is passed over.\<close>

fun resolveInRoots :: "env \<Rightarrow> string \<Rightarrow> string list \<Rightarrow> (string \<times> FileInfo) option result" where
  "resolveInRoots env sourceFile [] = ([], Inr None)"
| "resolveInRoots env sourceFile (root # roots) =
     (let resolvedPath = filepath_Join env root sourceFile
      in case os_Stat env resolvedPath of
           Inr fileInfo \<Rightarrow> ([EvStat resolvedPath], Inr (Some (resolvedPath, fileInfo)))
         | Inl err \<Rightarrow>
             (case resolveInRoots env sourceFile roots of
                (tr, r) \<Rightarrow> (EvStat resolvedPath # tr, r)))"

text \<open>The Go function returns \<^verbatim>\<open>(path, fileInfo, err)\<close>: \<open>Inl\<close> is a non-nil \<^verbatim>\<open>err\<close>,
  \<open>Inr None\<close> is a nil \<^verbatim>\<open>fileInfo\<close> with a nil \<^verbatim>\<open>err\<close>, \<open>Inr (Some _)\<close> is a found file.\<close>

definition resolveSourceFileOrNull :: "env \<Rightarrow> string \<Rightarrow> string list \<Rightarrow> (string \<times> FileInfo) option result" where
  "resolveSourceFileOrNull env sourceFile roots =
     (if filepath_IsAbs env sourceFile then
        (let cleanPath = filepath_Clean env sourceFile
         in case os_Stat env cleanPath of
              Inr fileInfo \<Rightarrow> ([EvStat cleanPath], Inr (Some (cleanPath, fileInfo)))
            | Inl err \<Rightarrow> ([EvStat cleanPath], Inl (WithStack (External err))))
      else resolveInRoots env sourceFile roots)"

text \<open>\<^verbatim>\<open>strings.Join\<close>.\<close>

fun strings_Join :: "string list \<Rightarrow> string \<Rightarrow> string" where
  "strings_Join [] sep = []"
| "strings_Join [s] sep = s"
| "strings_Join (s # t # ss) sep = s @ sep @ strings_Join (t # ss) sep"

text \<open>The loop of \<^verbatim>\<open>resolveSourceFile\<close> over the candidate names; \<open>Inr None\<close> is the loop
  running to its end.\<close>

fun resolveCandidates :: "env \<Rightarrow> string list \<Rightarrow> string list \<Rightarrow> string \<Rightarrow> (string \<times> FileInfo) option result" where
  "resolveCandidates env [] roots extraExtension = ([], Inr None)"
| "resolveCandidates env (sourceFile # sourceFiles) roots extraExtension =
     (case resolveSourceFileOrNull env sourceFile roots of
        (tr, Inl err) \<Rightarrow> (tr, Inl (WithStack err))
      | (tr, Inr (Some found)) \<Rightarrow> (tr, Inr (Some found))
      | (tr, Inr None) \<Rightarrow>
          (if extraExtension = [] then
             (case resolveCandidates env sourceFiles roots extraExtension of
                (tr3, r) \<Rightarrow> (tr @ tr3, r))
           else
             (let candidate =
                    (if extraExtension = ''.png'' \<and> sourceFile = ''icons'' then ''icon.png''
                     else sourceFile @ extraExtension)
              in case resolveSourceFileOrNull env candidate roots of
                   (tr2, Inl err) \<Rightarrow> (tr @ tr2, Inl (WithStack err))
                 | (tr2, Inr (Some found)) \<Rightarrow> (tr @ tr2, Inr (Some found))
                 | (tr2, Inr None) \<Rightarrow>
                     (case resolveCandidates env sourceFiles roots extraExtension of
                        (tr3, r) \<Rightarrow> (tr @ tr2 @ tr3, r)))))"

definition resolveSourceFile :: "env \<Rightarrow> string list \<Rightarrow> string list \<Rightarrow> string \<Rightarrow> (string \<times> FileInfo) result" where
  "resolveSourceFile env sourceFiles roots extraExtension =
     (case resolveCandidates env sourceFiles roots extraExtension of
        (tr, Inl err) \<Rightarrow> (tr, Inl err)
      | (tr, Inr (Some found)) \<Rightarrow> (tr, Inr found)
      | (tr, Inr None) \<Rightarrow>
          (tr, Inl (Errorf (''icon source '' @ [CHR 0x22] @ strings_Join sourceFiles '', ''
                              @ [CHR 0x22] @ '' not found''))))"

subsection \<open>Loading and validating images\<close>

definition loadImage :: "env \<Rightarrow> string \<Rightarrow> int \<Rightarrow> image result" where
  "loadImage env sourceFile minSize =
     (case LoadImage env sourceFile of
        Inl err \<Rightarrow> ([EvLoadImage sourceFile], Inl (WithStack (External err)))
      | Inr result \<Rightarrow>
          (if X (Max_pt (Bounds result)) < minSize \<or> Y (Max_pt (Bounds result)) < minSize
           then ([EvLoadImage sourceFile], Inl (WithStack (ImageSizeError sourceFile minSize)))
           else ([EvLoadImage sourceFile], Inr result)))"

text \<open>\<^verbatim>\<open>GetMaxImage\<close> has a value receiver: the image it loads is stored in the callee's
  copy of the struct, so the function returns the image and leaves the caller's struct
  as it was.\<close>

definition GetMaxImage :: "env \<Rightarrow> InputFileInfo \<Rightarrow> image result" where
  "GetMaxImage env t =
     (case maxImage t of
        None \<Rightarrow>
          (case loadImage env (MaxIconPath t) (recommendedMinSize t) of
             (tr, Inl err) \<Rightarrow> (tr, Inl (WithStack err))
           | (tr, Inr img) \<Rightarrow> (tr, Inr img))
      | Some img \<Rightarrow> ([], Inr img))"

definition validateImageSize :: "env \<Rightarrow> string \<Rightarrow> int \<Rightarrow> unit result" where
  "validateImageSize env file minSize =
     (case fs_ReadFile env file 512 of
        Inl err \<Rightarrow> ([EvReadHead file], Inl (WithStack (External err)))
      | Inr firstFileBytes \<Rightarrow>
          (if IsIco env firstFileBytes then
             (if list_ex (\<lambda>(w, h). w \<ge> minSize \<and> h \<ge> minSize) (GetIcoSizes env firstFileBytes)
              then ([EvReadHead file], Inr ())
              else ([EvReadHead file], Inl (ImageSizeError file minSize)))
           else
             (case DecodeImageConfig env file of
                Inl err \<Rightarrow>
                  ([EvReadHead file, EvDecodeImageConfig file], Inl (WithStack (External err)))
              | Inr (w, h) \<Rightarrow>
                  (if w \<ge> minSize \<and> h \<ge> minSize
                   then ([EvReadHead file, EvDecodeImageConfig file], Inr ())
                   else ([EvReadHead file, EvDecodeImageConfig file],
                         Inl (ImageSizeError file minSize))))))"

subsection \<open>The conversion pipeline\<close>

definition outputFormatToSingleFileExtension :: "string \<Rightarrow> string" where
  "outputFormatToSingleFileExtension outputFormat =
     (if outputFormat = ''set'' then ''.png'' else ''.'' @ outputFormat)"

text \<open>\<^verbatim>\<open>strings.HasSuffix\<close>.\<close>

definition strings_HasSuffix :: "string \<Rightarrow> string \<Rightarrow> bool" where
  "strings_HasSuffix s suffix =
     (length suffix \<le> length s \<and> drop (length s - length suffix) s = suffix)"

definition prepend :: "event list \<Rightarrow> 'a result \<Rightarrow> 'a result" where
  "prepend tr m = (case m of (tr', r) \<Rightarrow> (tr @ tr', r))"

text \<open>The \<^verbatim>\<open>switch outputFormat\<close> that ends \<^verbatim>\<open>ConvertIcon\<close>. An \<^verbatim>\<open>IconInfo\<close> built with
  its file only has the zero size.\<close>

definition ConvertIcon_switch :: "env \<Rightarrow> string \<Rightarrow> string \<Rightarrow> string \<Rightarrow> InputFileInfo \<Rightarrow> IconInfo list result" where
  "ConvertIcon_switch env outputFormat outExt resolvedPath inputInfo =
     (if outputFormat = ''icns'' then
        (case ConvertToIcns env inputInfo of
           (tr, Inl err) \<Rightarrow> (tr, Inl (WithStack err))
         | (tr, Inr file) \<Rightarrow> (tr, Inr [\<lparr>File = file, Size = 0\<rparr>]))
      else if outputFormat = ''ico'' then
        (case GetMaxImage env inputInfo of
           (tr, Inl err) \<Rightarrow> (tr, Inl (WithStack err))
         | (tr, Inr img) \<Rightarrow>
             (case util_TempFile env [] outExt of
                Inl err \<Rightarrow> (tr @ [EvTempFile outExt], Inl (WithStack (External err)))
              | Inr outFile \<Rightarrow>
                  (case SaveImage2 env img outFile of
                     Inl err \<Rightarrow>
                       (tr @ [EvTempFile outExt, EvSaveImage2 img outFile],
                        Inl (WithStack (External err)))
                   | Inr u \<Rightarrow>
                       (tr @ [EvTempFile outExt, EvSaveImage2 img outFile],
                        Inr [\<lparr>File = outFile, Size = 0\<rparr>]))))
      else ([], Inl (Errorf (''unknown output format '' @ resolvedPath))))"

text \<open>The directory branch: every collected icon is entered into \<^verbatim>\<open>SizeToPath\<close>, and the
  last one is the master. Indexing an empty slice panics.\<close>

definition dirInputInfo :: "InputFileInfo \<Rightarrow> IconInfo list \<Rightarrow> InputFileInfo" where
  "dirInputInfo inputInfo icons =
     (let maxIcon = last icons
      in inputInfo
           \<lparr>SizeToPath := foldl (\<lambda>m file. m(Size file \<mapsto> File file)) (SizeToPath inputInfo) icons,
            MaxIconPath := File maxIcon,
            MaxIconSize := Size maxIcon\<rparr>)"

definition ConvertIcon_dir :: "env \<Rightarrow> string \<Rightarrow> string \<Rightarrow> string \<Rightarrow> InputFileInfo \<Rightarrow> IconInfo list result" where
  "ConvertIcon_dir env outputFormat outExt resolvedPath inputInfo =
     (case CollectIcons env resolvedPath of
        Inl err \<Rightarrow> ([EvCollectIcons resolvedPath], Inl (WithStack (External err)))
      | Inr icons \<Rightarrow>
          (if outputFormat = ''set'' then ([EvCollectIcons resolvedPath], Inr icons)
           else if icons = [] then
             ([EvCollectIcons resolvedPath], Inl (Panic ''index out of range''))
           else
             prepend [EvCollectIcons resolvedPath]
               (ConvertIcon_switch env outputFormat outExt resolvedPath
                  (dirInputInfo inputInfo icons))))"

text \<open>The single-file branch.\<close>

definition ConvertIcon_file :: "env \<Rightarrow> string \<Rightarrow> string \<Rightarrow> string \<Rightarrow> InputFileInfo \<Rightarrow> IconInfo list result" where
  "ConvertIcon_file env outputFormat outExt resolvedPath inputInfo =
     (if outputFormat = ''set'' \<and> strings_HasSuffix resolvedPath ''.icns'' then
        (case ConvertIcnsToPng env resolvedPath of
           Inl err \<Rightarrow> ([EvConvertIcnsToPng resolvedPath], Inl (WithStack (External err)))
         | Inr result \<Rightarrow> ([EvConvertIcnsToPng resolvedPath], Inr result))
      else
        (case loadImage env resolvedPath (recommendedMinSize inputInfo) of
           (tr, Inl err) \<Rightarrow> (tr, Inl (WithStack err))
         | (tr, Inr loaded) \<Rightarrow>
             (let img = (if outputFormat = ''ico'' \<and> X (Max_pt (Bounds loaded)) > 256
                         then imaging_Resize env loaded 256 256 else loaded);
                  inputInfo' = inputInfo
                    \<lparr>MaxIconSize := X (Max_pt (Bounds img)),
                     maxImage := Some img,
                     SizeToPath := (SizeToPath inputInfo)(X (Max_pt (Bounds img)) \<mapsto> resolvedPath)\<rparr>
              in prepend tr
                   (ConvertIcon_switch env outputFormat outExt resolvedPath inputInfo'))))"

text \<open>The zero-valued \<^verbatim>\<open>InputFileInfo\<close> with its empty map and the minimum size of the
  target format.\<close>

definition newInputInfo :: "string \<Rightarrow> InputFileInfo" where
  "newInputInfo outputFormat =
     \<lparr>MaxIconSize = 0, MaxIconPath = [], SizeToPath = Map.empty, maxImage = None,
      recommendedMinSize = (if outputFormat = ''icns'' then 512 else 256)\<rparr>"

definition ConvertIcon :: "env \<Rightarrow> string list \<Rightarrow> string list \<Rightarrow> string \<Rightarrow> IconInfo list result" where
  "ConvertIcon env sourceFiles roots outputFormat =
     (let outExt = outputFormatToSingleFileExtension outputFormat
      in case resolveSourceFile env sourceFiles roots outExt of
           (tr, Inl err) \<Rightarrow> (tr, Inl (WithStack err))
         | (tr, Inr (resolvedPath, fileInfo)) \<Rightarrow>
             (let inputInfo = newInputInfo outputFormat
              in if strings_HasSuffix resolvedPath outExt then
                   (if outputFormat = ''icns'' then (tr, Inr [\<lparr>File = resolvedPath, Size = 0\<rparr>])
                    else
                      (case validateImageSize env resolvedPath (recommendedMinSize inputInfo) of
                         (tr2, Inl err) \<Rightarrow> (tr @ tr2, Inl (WithStack err))
                       | (tr2, Inr u) \<Rightarrow> (tr @ tr2, Inr [\<lparr>File = resolvedPath, Size = 0\<rparr>])))
                 else if IsDir fileInfo then
                   prepend tr (ConvertIcon_dir env outputFormat outExt resolvedPath inputInfo)
                 else
                   prepend tr (ConvertIcon_file env outputFormat outExt resolvedPath inputInfo)))"

section \<open>Observing a run\<close>

text \<open>
  The definitions of this section are not code of the repository: they say what is read off
  a run (the bytes written to a file, the number a length field denotes, the events of a
  kind) and name the container layout the properties are stated with.
\<close>

text \<open>What a run wrote to a file: the bytes of its writes to that name, in order. The code
  ignores the results of these writes, so this is what it hands to the file.\<close>

fun written :: "string \<Rightarrow> event list \<Rightarrow> byte list" where
  "written name [] = []"
| "written name (EvWrite f bs # tr) = (if f = name then bs @ written name tr else written name tr)"
| "written name (_ # tr) = written name tr"

text \<open>The unsigned number a byte string denotes when read most significant byte first; on
  four bytes it is what \<^verbatim>\<open>binary.BigEndian.Uint32\<close> reads.\<close>

definition be_value :: "byte list \<Rightarrow> nat" where
  "be_value bs = foldl (\<lambda>acc b. acc * 256 + unat b) 0 bs"

text \<open>One chunk of the container, the three writes of the inner loop: the OSType, the
  length field, the payload.\<close>

definition chunk :: "string \<Rightarrow> byte list \<Rightarrow> byte list" where
  "chunk ostype payload = bytes_of ostype @ PutUint32 (uint32_len8 (length payload)) @ payload"

text \<open>The body of a container that holds, for each size of a list in order and for each
  OSType of the size in table order, a chunk with the payload of the size; and the file
  made of the magic bytes, the length field and a body.\<close>

definition icns_body :: "(int \<Rightarrow> byte list) \<Rightarrow> int list \<Rightarrow> byte list" where
  "icns_body payload sizes =
     concat (map (\<lambda>sz. concat (map (\<lambda>ostype. chunk ostype (payload sz)) (sizeToType sz))) sizes)"

definition icns_file :: "byte list \<Rightarrow> byte list" where
  "icns_file body = icnsHeader @ PutUint32 (uint32_len8 (length body)) @ body"

text \<open>The master image of a conversion: the cached image when there is one, else the image
  decoded from \<^verbatim>\<open>MaxIconPath\<close>.\<close>

definition masterOf :: "env \<Rightarrow> InputFileInfo \<Rightarrow> image option" where
  "masterOf env inputInfo =
     (case maxImage inputInfo of
        Some img \<Rightarrow> Some img
      | None \<Rightarrow> (case LoadImage env (MaxIconPath inputInfo) of Inl e \<Rightarrow> None | Inr img \<Rightarrow> Some img))"

text \<open>The payload of a size as a function of the input alone, without the cache and the
  events of \<^verbatim>\<open>imageDataFor\<close>: the existing file of the size if it has one, else the PNG
  encoding of the master resized to the size.\<close>

definition payloadFor :: "env \<Rightarrow> InputFileInfo \<Rightarrow> int \<Rightarrow> byte list option" where
  "payloadFor env inputInfo sz =
     (case SizeToPath inputInfo sz of
        Some existingFile \<Rightarrow>
          (case ioutil_ReadFile env existingFile of Inl e \<Rightarrow> None | Inr imageData \<Rightarrow> Some imageData)
      | None \<Rightarrow>
          (case masterOf env inputInfo of
             None \<Rightarrow> None
           | Some img \<Rightarrow>
               (case png_Encode env (imaging_Resize env img sz sz) of
                  Inl e \<Rightarrow> None | Inr imageData \<Rightarrow> Some imageData)))"

text \<open>The eight bytes every PNG stream starts with.\<close>

definition png_signature :: "byte list" where
  "png_signature = [0x89, 0x50, 0x4E, 0x47, 0x0D, 0x0A, 0x1A, 0x0A]"

text \<open>Events by kind: a \<^verbatim>\<open>os.Stat\<close> probe, a decode of an image file.\<close>

fun isStat :: "event \<Rightarrow> bool" where
  "isStat (EvStat p) = True"
| "isStat e = False"

fun isLoad :: "event \<Rightarrow> bool" where
  "isLoad (EvLoadImage p) = True"
| "isLoad e = False"

text \<open>The number of image decodes in a run, and the number of decodes an input info still
  allows: one while its master image is not yet cached, none once it is.\<close>

definition loads :: "event list \<Rightarrow> nat" where
  "loads tr = length (filter isLoad tr)"

definition decodesLeft :: "InputFileInfo \<Rightarrow> nat" where
  "decodesLeft inputInfo = (case maxImage inputInfo of None \<Rightarrow> 1 | Some img \<Rightarrow> 0)"


section \<open>Concrete inputs\<close>

text \<open>An image rectangle anchored at the origin.\<close>

definition square :: "int \<Rightarrow> Rectangle" where
  "square n = \<lparr>Min_pt = \<lparr>X = 0, Y = 0\<rparr>, Max_pt = \<lparr>X = n, Y = n\<rparr>\<rparr>"

text \<open>The first bytes of a JPEG stream.\<close>

definition jpeg_bytes :: "byte list" where
  "jpeg_bytes = [0xFF, 0xD8, 0xFF, 0xE0, 0x00, 0x10]"

text \<open>A small world for the concrete runs below: a project directory with a JPEG, two PNG
  files, an ICNS file and an icon directory of two sizes.\<close>

definition sample_env :: env where
  "sample_env =
     \<lparr>filepath_IsAbs = (\<lambda>p. take 1 p = ''/''),
      filepath_Clean = (\<lambda>p. p),
      filepath_Join = (\<lambda>root name. root @ ''/'' @ name),
      os_Stat = (\<lambda>p.
        if p = ''/proj/icons'' then Inr \<lparr>IsDir = True\<rparr>
        else if p \<in> set [''/proj/icon.jpg'', ''/proj/small.png'', ''/proj/big.png'', ''/proj/app.icns'']
        then Inr \<lparr>IsDir = False\<rparr>
        else Inl ''no such file or directory''),
      ioutil_ReadFile = (\<lambda>p.
        if p = ''/proj/icon.jpg'' then Inr jpeg_bytes
        else if p = ''/proj/icons/16x16.png'' then Inr (png_signature @ [1])
        else if p = ''/proj/icons/64x64.png'' then Inr (png_signature @ [2, 3])
        else Inl ''no such file or directory''),
      fs_ReadFile = (\<lambda>p n. Inl ''no such file or directory''),
      LoadImage = (\<lambda>p.
        if p = ''/proj/icon.jpg'' then Inr \<lparr>Bounds = square 512, Pix = [7]\<rparr>
        else if p = ''/proj/small.png'' then Inr \<lparr>Bounds = square 128, Pix = [8]\<rparr>
        else if p = ''/proj/big.png'' then Inr \<lparr>Bounds = square 1024, Pix = [9]\<rparr>
        else if p = ''/proj/icons/64x64.png'' then Inr \<lparr>Bounds = square 64, Pix = [2, 3]\<rparr>
        else Inl ''cannot decode''),
      DecodeImageConfig = (\<lambda>p. Inl ''cannot decode''),
      IsIco = (\<lambda>bs. False),
      GetIcoSizes = (\<lambda>bs. []),
      imaging_Resize = (\<lambda>img w h.
        \<lparr>Bounds = \<lparr>Min_pt = \<lparr>X = 0, Y = 0\<rparr>, Max_pt = \<lparr>X = w, Y = h\<rparr>\<rparr>, Pix = Pix img\<rparr>),
      png_Encode = (\<lambda>img. Inr (png_signature @ map of_nat (Pix img))),
      util_TempFile = (\<lambda>dir suffix. Inr (''/tmp/out'' @ suffix)),
      SaveImage2 = (\<lambda>img name. Inr ()),
      CollectIcons = (\<lambda>dir.
        if dir = ''/proj/icons''
        then Inr [\<lparr>File = ''/proj/icons/16x16.png'', Size = 16\<rparr>,
                  \<lparr>File = ''/proj/icons/64x64.png'', Size = 64\<rparr>]
        else Inl ''not a directory''),
      ConvertIcnsToPng = (\<lambda>p. Inl ''not an icns file'')\<rparr>"

text \<open>The input info \<^verbatim>\<open>ConvertIcon\<close> builds for the icon directory of that world.\<close>

definition dir_info :: InputFileInfo where
  "dir_info =
     \<lparr>MaxIconSize = 64, MaxIconPath = ''/proj/icons/64x64.png'',
      SizeToPath = [16 \<mapsto> ''/proj/icons/16x16.png'', 64 \<mapsto> ''/proj/icons/64x64.png''],
      maxImage = None, recommendedMinSize = 512\<rparr>"

text \<open>An input whose master is 300 pixels wide, already decoded.\<close>

definition master300_info :: InputFileInfo where
  "master300_info =
     \<lparr>MaxIconSize = 300, MaxIconPath = ''/proj/m300.png'', SizeToPath = Map.empty,
      maxImage = Some \<lparr>Bounds = square 300, Pix = [4]\<rparr>, recommendedMinSize = 512\<rparr>"

text \<open>A file of \<open>2^32 - 8\<close> bytes.\<close>

definition huge_file :: "byte list" where
  "huge_file = replicate 4294967288 0"

text \<open>The same world with every file that large, and the input info of a directory that
  holds a single 16 pixel icon.\<close>

definition huge_env :: env where
  "huge_env = sample_env\<lparr>ioutil_ReadFile := (\<lambda>p. Inr huge_file)\<rparr>"

definition icon16_info :: InputFileInfo where
  "icon16_info =
     \<lparr>MaxIconSize = 16, MaxIconPath = ''/proj/icons/16x16.png'',
      SizeToPath = [16 \<mapsto> ''/proj/icons/16x16.png''],
      maxImage = None, recommendedMinSize = 512\<rparr>"

text \<open>The same world with one more file: a banner of 1024 by 100 pixels.\<close>

definition banner_env :: env where
  "banner_env = sample_env
     \<lparr>os_Stat := (\<lambda>p. if p = ''/proj/banner.png'' then Inr \<lparr>IsDir = False\<rparr> else os_Stat sample_env p),
      LoadImage := (\<lambda>p.
        if p = ''/proj/banner.png''
        then Inr \<lparr>Bounds = \<lparr>Min_pt = \<lparr>X = 0, Y = 0\<rparr>, Max_pt = \<lparr>X = 1024, Y = 100\<rparr>\<rparr>, Pix = [5]\<rparr>
        else LoadImage sample_env p)\<rparr>"

section \<open>Properties\<close>

subsection \<open>The encoder\<close>

lemma unat_ucast_drop: "unat (ucast (drop_bit k (v::32 word)) :: byte) = (unat v div 2 ^ k) mod 256"
proof -
  have "unat (ucast (drop_bit k v) :: byte) = take_bit 8 (drop_bit k (unat v))"
    by (simp add: unsigned_ucast_eq unat_drop_bit_eq)
  then show ?thesis by (simp add: take_bit_eq_mod drop_bit_eq_div)
qed

lemma unat_ucast_byte: "unat (ucast (v::32 word) :: byte) = unat v mod 256"
  using unat_ucast_drop [of 0 v] by simp

lemma digits_256:
  fixes n :: nat
  assumes "n < 2 ^ 32"
  shows "((n div 2 ^ 24 mod 256 * 256 + n div 2 ^ 16 mod 256) * 256 + n div 2 ^ 8 mod 256) * 256
           + n mod 256 = n"
proof -
  define q1 where "q1 = n div 256"
  define q2 where "q2 = q1 div 256"
  define q3 where "q3 = q2 div 256"
  have e1: "n div 2 ^ 8 = q1" by (simp add: q1_def)
  have e2: "n div 2 ^ 16 = q2" by (simp add: q1_def q2_def div_mult2_eq)
  have e3: "n div 2 ^ 24 = q3" by (simp add: q1_def q2_def q3_def div_mult2_eq)
  have "q3 < 256" using assms unfolding e3 [symmetric] by simp
  then have m3: "q3 mod 256 = q3" by simp
  have r2: "q3 * 256 + q2 mod 256 = q2" by (simp add: q3_def)
  have r1: "q2 * 256 + q1 mod 256 = q1" by (simp add: q2_def)
  have r0: "q1 * 256 + n mod 256 = n" by (simp add: q1_def)
  show ?thesis by (simp only: e1 e2 e3 m3 r2 r1 r0)
qed

lemma be_value_PutUint32: "be_value (PutUint32 v) = unat v"
proof -
  have b: "unat v < 2 ^ 32" using unsigned_less [of v] by simp
  have "be_value (PutUint32 v) =
      ((unat v div 2 ^ 24 mod 256 * 256 + unat v div 2 ^ 16 mod 256) * 256 + unat v div 2 ^ 8 mod 256) * 256 + unat v mod 256"
    unfolding be_value_def PutUint32_def
    by (simp only: foldl.simps unat_ucast_byte unat_drop_bit_eq) (simp add: drop_bit_eq_div)
  also have "\<dots> = unat v" by (rule digits_256 [OF b])
  finally show ?thesis .
qed

lemma unat_uint32_len8: "n + 8 < 2 ^ 32 \<Longrightarrow> unat (uint32_len8 n) = n + 8"
  by (simp add: uint32_len8_def unat_of_nat del: of_nat_add)

lemma writeChunks_foldl:
  "foldl (\<lambda>buf ostype. buf @ f ostype @ l @ d) icns ts
     = icns @ concat (map (\<lambda>ostype. f ostype @ l @ d) ts)"
  by (induction ts arbitrary: icns) simp_all

lemma writeChunks_eq:
  "writeChunks sz d icns
     = icns @ concat (map (\<lambda>ostype. bytes_of ostype @ PutUint32 (uint32_len8 (length d)) @ d) (sizeToType sz))"
  by (simp add: writeChunks_def Let_def writeChunks_foldl)

lemma imageDataFor_payload:
  assumes "imageDataFor env inputInfo sz = (tr, Inr (inputInfo', d))"
  shows "payloadFor env inputInfo sz = Some d"
    and "MaxIconSize inputInfo' = MaxIconSize inputInfo"
    and "SizeToPath inputInfo' = SizeToPath inputInfo"
    and "masterOf env inputInfo' = masterOf env inputInfo"
  using assms
  by (auto simp: imageDataFor_def payloadFor_def masterOf_def split: option.splits sum.splits)

lemma payloadFor_cong:
  "SizeToPath a = SizeToPath b \<Longrightarrow> masterOf env a = masterOf env b \<Longrightarrow> payloadFor env a = payloadFor env b"
  by (rule ext) (simp add: payloadFor_def split: option.splits)

lemma icnsLoop_body:
  assumes "icnsLoop env sizes inputInfo icns = (tr, Inr (inputInfo', icns'))"
  shows "(\<forall>sz \<in> set (filter (\<lambda>sz. sz \<le> MaxIconSize inputInfo) sizes). payloadFor env inputInfo sz \<noteq> None)
       \<and> icns' = icns @ concat (map (\<lambda>sz. concat (map (\<lambda>ostype. bytes_of ostype
                     @ PutUint32 (uint32_len8 (length (the (payloadFor env inputInfo sz))))
                     @ the (payloadFor env inputInfo sz)) (sizeToType sz)))
                   (filter (\<lambda>sz. sz \<le> MaxIconSize inputInfo) sizes))"
  using assms
proof (induction sizes arbitrary: inputInfo icns tr)
  case Nil
  then show ?case by simp
next
  case (Cons sz sizes)
  show ?case
  proof (cases "sz > MaxIconSize inputInfo")
    case True
    with Cons.prems have "icnsLoop env sizes inputInfo icns = (tr, Inr (inputInfo', icns'))" by simp
    from Cons.IH [OF this] True show ?thesis by simp
  next
    case False
    with Cons.prems obtain t1 info1 d t2 where
      step: "imageDataFor env inputInfo sz = (t1, Inr (info1, d))" and
      rest: "icnsLoop env sizes info1 (writeChunks sz d icns) = (t2, Inr (inputInfo', icns'))"
      by (auto split: prod.splits sum.splits)
    note p = imageDataFor_payload [OF step]
    have eq: "payloadFor env info1 = payloadFor env inputInfo"
      by (rule payloadFor_cong) (simp_all add: p)
    from Cons.IH [OF rest] False p(1) show ?thesis
      by (simp add: eq p(2) writeChunks_eq)
  qed
qed

lemma sizeToType_simps:
  "sizeToType 16 = [''icp4'']" "sizeToType 32 = [''icp5'', ''ic11'']"
  "sizeToType 64 = [''icp6'', ''ic12'']" "sizeToType 128 = [''ic07'']"
  "sizeToType 256 = [''ic08'', ''ic13'']" "sizeToType 512 = [''ic09'', ''ic14'']"
  "sizeToType 1024 = [''ic10'']"
  by (simp_all add: sizeToType_def sizeToType_table_def)

lemma written_append: "written name (a @ b) = written name a @ written name b"
proof (induction a)
  case Nil
  then show ?case by simp
next
  case (Cons e a)
  then show ?case by (cases e) simp_all
qed

lemma imageDataFor_no_write: "imageDataFor env inputInfo sz = (tr, r) \<Longrightarrow> written name tr = []"
  by (auto simp: imageDataFor_def split: option.splits sum.splits)

lemma icnsLoop_no_write: "icnsLoop env sizes inputInfo icns = (tr, r) \<Longrightarrow> written name tr = []"
proof (induction sizes arbitrary: inputInfo icns tr r)
  case Nil
  then show ?case by simp
next
  case (Cons sz sizes)
  show ?case
  proof (cases "sz > MaxIconSize inputInfo")
    case True
    with Cons.prems Cons.IH show ?thesis by simp
  next
    case False
    obtain t1 r1 where step: "imageDataFor env inputInfo sz = (t1, r1)" by (cases "imageDataFor env inputInfo sz")
    note w1 = imageDataFor_no_write [OF step, of name]
    show ?thesis
    proof (cases r1)
      case (Inl e)
      with Cons.prems False step w1 show ?thesis by simp
    next
      case (Inr a)
      obtain info1 d where a: "a = (info1, d)" by (cases a)
      obtain t2 r2 where rest: "icnsLoop env sizes info1 (writeChunks sz d icns) = (t2, r2)"
        by (cases "icnsLoop env sizes info1 (writeChunks sz d icns)")
      from Cons.prems False step Inr a rest have "tr = t1 @ t2" by simp
      with w1 Cons.IH [OF rest] show ?thesis by (simp add: written_append)
    qed
  qed
qed

lemma ConvertToIcns_written:
  assumes "ConvertToIcns env inputInfo = (tr, Inr outFile)"
  shows "\<exists>tr0 inputInfo' icns.
           icnsLoop env icnsExpectedSizes inputInfo [] = (tr0, Inr (inputInfo', icns))
         \<and> written outFile tr = icnsHeader @ PutUint32 (uint32_len8 (length icns)) @ icns"
proof -
  obtain tr0 r0 where loop: "icnsLoop env icnsExpectedSizes inputInfo [] = (tr0, r0)"
    by (cases "icnsLoop env icnsExpectedSizes inputInfo []")
  note nw = icnsLoop_no_write [OF loop, of outFile]
  from assms loop obtain inputInfo' icns where r0: "r0 = Inr (inputInfo', icns)"
    by (cases r0) (auto simp: ConvertToIcns_def)
  from assms loop r0 have
    "tr = tr0 @ [EvTempFile ''.icns'', EvWrite outFile icnsHeader,
                 EvWrite outFile (PutUint32 (uint32_len8 (length icns))), EvWrite outFile icns]"
    by (auto simp: ConvertToIcns_def Let_def split: sum.splits)
  then have "written outFile tr = icnsHeader @ PutUint32 (uint32_len8 (length icns)) @ icns"
    using nw by (simp add: written_append)
  with loop r0 show ?thesis by blast
qed

lemma length_concat_map_mem: "x \<in> set xs \<Longrightarrow> length (f x) \<le> length (concat (map f xs))"
  by (induction xs) auto

lemma length_PutUint32: "length (PutUint32 v) = 4"
  by (simp add: PutUint32_def)

lemma icnsExpectedSizes_tags: "sz \<in> set icnsExpectedSizes \<Longrightarrow> sizeToType sz \<noteq> []"
  by (auto simp: icnsExpectedSizes_def sizeToType_simps)

lemma sizeToType_tag_length: "ostype \<in> set (sizeToType sz) \<Longrightarrow> length (bytes_of ostype) = 4"
  by (auto simp: sizeToType_def sizeToType_table_def bytes_of_def split: if_splits)

text \<open>
  Claim C1, as amended. When \<^verbatim>\<open>ConvertToIcns\<close> returns an output file and that file is
  shorter than \<open>2^32\<close> bytes, the bytes written to it are: the four magic bytes \<^verbatim>\<open>icns\<close>;
  a four-byte field that, read big-endian, is the length of the body plus 8, which is the
  length of the whole file; then, for each expected size up to \<^verbatim>\<open>MaxIconSize\<close> in ascending
  order and for each OSType of that size in table order, a chunk made of the four bytes of
  the OSType, a four-byte field that, read big-endian, is the payload length plus 8, and the
  payload. Every OSType of a size gets the same payload (a copy of the same bytes), and the
  payload of a size is \<open>payloadFor\<close> of that size.
\<close>

theorem ConvertToIcns_layout:
  assumes run: "ConvertToIcns env inputInfo = (tr, Inr outFile)"
      and small: "length (written outFile tr) < 2 ^ 32"
  shows "\<exists>payload field total.
           written outFile tr = icnsHeader @ total
             @ concat (map (\<lambda>sz. concat (map (\<lambda>ostype. bytes_of ostype @ field sz @ payload sz)
                                             (sizeToType sz)))
                           (filter (\<lambda>sz. sz \<le> MaxIconSize inputInfo) icnsExpectedSizes))
         \<and> sorted_wrt (<) (filter (\<lambda>sz. sz \<le> MaxIconSize inputInfo) icnsExpectedSizes)
         \<and> length icnsHeader = 4 \<and> length total = 4
         \<and> be_value total = length (written outFile tr)
         \<and> be_value total = length (drop 8 (written outFile tr)) + 8
         \<and> (\<forall>sz \<in> set (filter (\<lambda>sz. sz \<le> MaxIconSize inputInfo) icnsExpectedSizes).
               payloadFor env inputInfo sz = Some (payload sz)
             \<and> length (field sz) = 4
             \<and> be_value (field sz) = length (payload sz) + 8
             \<and> (\<forall>ostype \<in> set (sizeToType sz). length (bytes_of ostype) = 4))"
proof -
  define sizes where "sizes = filter (\<lambda>sz. sz \<le> MaxIconSize inputInfo) icnsExpectedSizes"
  define payload where "payload = (\<lambda>sz. the (payloadFor env inputInfo sz))"
  define field where "field = (\<lambda>sz. PutUint32 (uint32_len8 (length (payload sz))))"
  define group where "group = (\<lambda>sz. concat (map (\<lambda>ostype. bytes_of ostype @ field sz @ payload sz) (sizeToType sz)))"
  define body where "body = concat (map group sizes)"
  define total where "total = PutUint32 (uint32_len8 (length body))"
  from ConvertToIcns_written [OF run] obtain tr0 inputInfo' icns where
    loop: "icnsLoop env icnsExpectedSizes inputInfo [] = (tr0, Inr (inputInfo', icns))" and
    w: "written outFile tr = icnsHeader @ PutUint32 (uint32_len8 (length icns)) @ icns"
    by blast
  from icnsLoop_body [OF loop] have
    some: "\<forall>sz \<in> set sizes. payloadFor env inputInfo sz \<noteq> None" and
    icns: "icns = body"
    by (simp_all add: sizes_def body_def group_def field_def payload_def)
  have out: "written outFile tr = icnsHeader @ total @ body"
    using w by (simp add: icns total_def)
  have len: "length (written outFile tr) = length body + 8"
    by (simp add: out total_def length_PutUint32 icnsHeader_def)
  have total: "be_value total = length body + 8"
    using small len by (simp add: total_def be_value_PutUint32 unat_uint32_len8)
  have per: "payloadFor env inputInfo sz = Some (payload sz) \<and> length (field sz) = 4
             \<and> be_value (field sz) = length (payload sz) + 8
             \<and> (\<forall>ostype \<in> set (sizeToType sz). length (bytes_of ostype) = 4)"
    if mem: "sz \<in> set sizes" for sz
  proof -
    from mem have "sz \<in> set icnsExpectedSizes" by (simp add: sizes_def)
    then obtain t ts where tags: "sizeToType sz = t # ts"
      using icnsExpectedSizes_tags [of sz] by (cases "sizeToType sz") auto
    have "length (bytes_of t) = 4"
      by (rule sizeToType_tag_length [of t sz]) (simp add: tags)
    then have "length (payload sz) + 8 \<le> length (group sz)"
      by (simp add: group_def tags field_def length_PutUint32)
    also have "\<dots> \<le> length body"
      unfolding body_def using mem by (rule length_concat_map_mem)
    finally have "length (payload sz) + 8 < 2 ^ 32" using small len by simp
    then have "be_value (field sz) = length (payload sz) + 8"
      by (simp add: field_def be_value_PutUint32 unat_uint32_len8)
    moreover from some mem have "payloadFor env inputInfo sz = Some (payload sz)"
      by (auto simp: payload_def)
    ultimately show ?thesis
      by (simp add: field_def length_PutUint32 sizeToType_tag_length)
  qed
  have asc: "sorted_wrt (<) sizes"
    unfolding sizes_def by (rule sorted_wrt_filter) (simp add: icnsExpectedSizes_def)
  have "written outFile tr = icnsHeader @ total @ concat (map group sizes)
      \<and> sorted_wrt (<) sizes
      \<and> length icnsHeader = 4 \<and> length total = 4
      \<and> be_value total = length (written outFile tr)
      \<and> be_value total = length (drop 8 (written outFile tr)) + 8
      \<and> (\<forall>sz \<in> set sizes. payloadFor env inputInfo sz = Some (payload sz) \<and> length (field sz) = 4
             \<and> be_value (field sz) = length (payload sz) + 8
             \<and> (\<forall>ostype \<in> set (sizeToType sz). length (bytes_of ostype) = 4))"
    using out len total per asc
    by (simp add: body_def icnsHeader_def total_def length_PutUint32)
  then show ?thesis
    unfolding sizes_def group_def by blast
qed

lemmas encoder_defs = ConvertToIcns_def icnsExpectedSizes_def imageDataFor_def writeChunks_def
  sizeToType_simps bytes_of_def uint32_len8_def PutUint32_def icnsHeader_def

lemma dir_run:
  "ConvertToIcns sample_env dir_info =
    ([EvReadFile ''/proj/icons/16x16.png'', EvLoadImage ''/proj/icons/64x64.png'',
      EvReadFile ''/proj/icons/64x64.png'', EvTempFile ''.icns'',
      EvWrite ''/tmp/out.icns'' icnsHeader,
      EvWrite ''/tmp/out.icns'' [0, 0, 0, 97],
      EvWrite ''/tmp/out.icns''
        (chunk ''icp4'' (png_signature @ [1]) @ chunk ''icp5'' (png_signature @ [2, 3])
         @ chunk ''ic11'' (png_signature @ [2, 3]) @ chunk ''icp6'' (png_signature @ [2, 3])
         @ chunk ''ic12'' (png_signature @ [2, 3]))],
     Inr ''/tmp/out.icns'')"
  by (simp add: encoder_defs chunk_def sample_env_def dir_info_def png_signature_def)

lemma length_huge_file: "length huge_file = 4294967288"
  by (simp add: huge_file_def)

lemma uint32_wraps: "uint32_len8 4294967288 = 0" "uint32_len8 4294967296 = 8"
  by (simp_all add: uint32_len8_def)

text \<open>
  Claim C1 as stated does not hold for every payload: the length fields are 32 bits wide and
  the code narrows the lengths with \<^verbatim>\<open>uint32(...)\<close>. With an existing 16-pixel file of
  \<open>2^32 - 8\<close> bytes the chunk's length field reads 0 and the total-length field reads 8,
  while the payload length plus 8 is \<open>2^32\<close> and the file is \<open>2^32 + 8\<close> bytes long.
\<close>

theorem ConvertToIcns_length_field_counterexample:
  "snd (ConvertToIcns huge_env icon16_info) = Inr ''/tmp/out.icns''
   \<and> written ''/tmp/out.icns'' (fst (ConvertToIcns huge_env icon16_info))
       = icnsHeader @ [0, 0, 0, 8] @ bytes_of ''icp4'' @ [0, 0, 0, 0] @ huge_file
   \<and> be_value [0, 0, 0, 8] \<noteq> length (written ''/tmp/out.icns'' (fst (ConvertToIcns huge_env icon16_info)))
   \<and> be_value [0, 0, 0, 0] \<noteq> length huge_file + 8"
  by (simp add: ConvertToIcns_def icnsExpectedSizes_def imageDataFor_def writeChunks_def
      sizeToType_simps bytes_of_def PutUint32_def icnsHeader_def
      huge_env_def sample_env_def icon16_info_def length_huge_file uint32_wraps be_value_def)

text \<open>The amended claim C1 at a concrete run: the icon directory with a 16 and a 64 pixel
  file, the 32 pixel payload being derived from the master.\<close>

theorem ConvertToIcns_layout_witness:
  "ConvertToIcns sample_env dir_info = (fst (ConvertToIcns sample_env dir_info), Inr ''/tmp/out.icns'')
   \<and> length (written ''/tmp/out.icns'' (fst (ConvertToIcns sample_env dir_info))) < 2 ^ 32
   \<and> (\<exists>payload field total.
           written ''/tmp/out.icns'' (fst (ConvertToIcns sample_env dir_info)) = icnsHeader @ total
             @ concat (map (\<lambda>sz. concat (map (\<lambda>ostype. bytes_of ostype @ field sz @ payload sz)
                                             (sizeToType sz)))
                           (filter (\<lambda>sz. sz \<le> MaxIconSize dir_info) icnsExpectedSizes))
         \<and> sorted_wrt (<) (filter (\<lambda>sz. sz \<le> MaxIconSize dir_info) icnsExpectedSizes)
         \<and> length icnsHeader = 4 \<and> length total = 4
         \<and> be_value total = length (written ''/tmp/out.icns'' (fst (ConvertToIcns sample_env dir_info)))
         \<and> be_value total = length (drop 8 (written ''/tmp/out.icns'' (fst (ConvertToIcns sample_env dir_info)))) + 8
         \<and> (\<forall>sz \<in> set (filter (\<lambda>sz. sz \<le> MaxIconSize dir_info) icnsExpectedSizes).
               payloadFor sample_env dir_info sz = Some (payload sz)
             \<and> length (field sz) = 4
             \<and> be_value (field sz) = length (payload sz) + 8
             \<and> (\<forall>ostype \<in> set (sizeToType sz). length (bytes_of ostype) = 4)))"
proof -
  have run: "ConvertToIcns sample_env dir_info
      = (fst (ConvertToIcns sample_env dir_info), Inr ''/tmp/out.icns'')"
    by (simp add: dir_run)
  have small: "length (written ''/tmp/out.icns'' (fst (ConvertToIcns sample_env dir_info))) < 2 ^ 32"
    by (simp add: dir_run chunk_def bytes_of_def PutUint32_def png_signature_def icnsHeader_def)
  from ConvertToIcns_layout [OF run small] run small show ?thesis by (intro conjI)
qed

lemma ConvertToIcns_file:
  assumes run: "ConvertToIcns env inputInfo = (tr, Inr outFile)"
  shows "(\<forall>sz \<in> set (filter (\<lambda>sz. sz \<le> MaxIconSize inputInfo) icnsExpectedSizes).
            payloadFor env inputInfo sz \<noteq> None)
       \<and> written outFile tr
           = icns_file (icns_body (\<lambda>sz. the (payloadFor env inputInfo sz))
               (filter (\<lambda>sz. sz \<le> MaxIconSize inputInfo) icnsExpectedSizes))"
proof -
  from ConvertToIcns_written [OF run] obtain tr0 inputInfo' icns where
    loop: "icnsLoop env icnsExpectedSizes inputInfo [] = (tr0, Inr (inputInfo', icns))" and
    w: "written outFile tr = icnsHeader @ PutUint32 (uint32_len8 (length icns)) @ icns"
    by blast
  from icnsLoop_body [OF loop] w show ?thesis
    by (simp add: icns_file_def icns_body_def chunk_def)
qed

lemma sizes_300: "filter (\<lambda>sz. sz \<le> 300) icnsExpectedSizes = [16, 32, 64, 128, 256]"
  by (simp add: icnsExpectedSizes_def)

text \<open>
  Claim C2. Whenever \<^verbatim>\<open>ConvertToIcns\<close> returns an output file, the file holds chunks for
  exactly the expected sizes that are at most \<^verbatim>\<open>MaxIconSize\<close>, in ascending order, each
  with the payload of its size; a larger size contributes nothing. With a master size of
  300 the file holds the chunks of 16, 32, 64, 128 and 256 (\<^verbatim>\<open>icp4\<close>, \<^verbatim>\<open>icp5\<close>, \<^verbatim>\<open>ic11\<close>,
  \<^verbatim>\<open>icp6\<close>, \<^verbatim>\<open>ic12\<close>, \<^verbatim>\<open>ic07\<close>, \<^verbatim>\<open>ic08\<close>, \<^verbatim>\<open>ic13\<close>) and none of 512 or 1024
  (\<^verbatim>\<open>ic09\<close>, \<^verbatim>\<open>ic14\<close>, \<^verbatim>\<open>ic10\<close>).
\<close>

theorem ConvertToIcns_never_upscales:
  assumes run: "ConvertToIcns env inputInfo = (tr, Inr outFile)"
  shows "\<exists>payload.
           (\<forall>sz \<in> set (filter (\<lambda>sz. sz \<le> MaxIconSize inputInfo) icnsExpectedSizes).
              sz \<le> MaxIconSize inputInfo \<and> payloadFor env inputInfo sz = Some (payload sz))
         \<and> written outFile tr
             = icns_file (icns_body payload
                 (filter (\<lambda>sz. sz \<le> MaxIconSize inputInfo) icnsExpectedSizes))
         \<and> (MaxIconSize inputInfo = 300 \<longrightarrow>
              written outFile tr
                = icns_file (chunk ''icp4'' (payload 16)
                    @ chunk ''icp5'' (payload 32) @ chunk ''ic11'' (payload 32)
                    @ chunk ''icp6'' (payload 64) @ chunk ''ic12'' (payload 64)
                    @ chunk ''ic07'' (payload 128)
                    @ chunk ''ic08'' (payload 256) @ chunk ''ic13'' (payload 256)))"
proof -
  define payload where "payload = (\<lambda>sz. the (payloadFor env inputInfo sz))"
  note f = ConvertToIcns_file [OF run, folded payload_def]
  have a: "\<forall>sz \<in> set (filter (\<lambda>sz. sz \<le> MaxIconSize inputInfo) icnsExpectedSizes).
              sz \<le> MaxIconSize inputInfo \<and> payloadFor env inputInfo sz = Some (payload sz)"
    using f by (auto simp: payload_def)
  have b: "written outFile tr
             = icns_file (icns_body payload
                 (filter (\<lambda>sz. sz \<le> MaxIconSize inputInfo) icnsExpectedSizes))"
    using f by simp
  have c: "written outFile tr
                = icns_file (chunk ''icp4'' (payload 16)
                    @ chunk ''icp5'' (payload 32) @ chunk ''ic11'' (payload 32)
                    @ chunk ''icp6'' (payload 64) @ chunk ''ic12'' (payload 64)
                    @ chunk ''ic07'' (payload 128)
                    @ chunk ''ic08'' (payload 256) @ chunk ''ic13'' (payload 256))"
    if "MaxIconSize inputInfo = 300"
    using b that by (simp add: sizes_300 icns_body_def sizeToType_simps)
  from a b c show ?thesis by blast
qed

lemma master300_run:
  "ConvertToIcns sample_env master300_info =
    ([EvTempFile ''.icns'',
      EvWrite ''/tmp/out.icns'' icnsHeader,
      EvWrite ''/tmp/out.icns'' [0, 0, 0, 144],
      EvWrite ''/tmp/out.icns''
        (chunk ''icp4'' (png_signature @ [4])
         @ chunk ''icp5'' (png_signature @ [4]) @ chunk ''ic11'' (png_signature @ [4])
         @ chunk ''icp6'' (png_signature @ [4]) @ chunk ''ic12'' (png_signature @ [4])
         @ chunk ''ic07'' (png_signature @ [4])
         @ chunk ''ic08'' (png_signature @ [4]) @ chunk ''ic13'' (png_signature @ [4]))],
     Inr ''/tmp/out.icns'')"
  by (simp add: encoder_defs chunk_def sample_env_def master300_info_def png_signature_def)

text \<open>Claim C2 at a master of 300 pixels.\<close>

theorem ConvertToIcns_never_upscales_witness:
  "ConvertToIcns sample_env master300_info
     = (fst (ConvertToIcns sample_env master300_info), Inr ''/tmp/out.icns'')
   \<and> MaxIconSize master300_info = 300
   \<and> (\<exists>payload.
         written ''/tmp/out.icns'' (fst (ConvertToIcns sample_env master300_info))
           = icns_file (chunk ''icp4'' (payload (16::int))
               @ chunk ''icp5'' (payload 32) @ chunk ''ic11'' (payload 32)
               @ chunk ''icp6'' (payload 64) @ chunk ''ic12'' (payload 64)
               @ chunk ''ic07'' (payload 128)
               @ chunk ''ic08'' (payload 256) @ chunk ''ic13'' (payload 256)))"
proof -
  have run: "ConvertToIcns sample_env master300_info
      = (fst (ConvertToIcns sample_env master300_info), Inr ''/tmp/out.icns'')"
    by (simp add: master300_run)
  have m: "MaxIconSize master300_info = 300"
    by (simp add: master300_info_def)
  from ConvertToIcns_never_upscales [OF run] m run show ?thesis by blast
qed

text \<open>
  Claim C7, as amended. Whenever \<^verbatim>\<open>ConvertToIcns\<close> returns an output file, the payload of
  every included size is one of two things. If \<^verbatim>\<open>SizeToPath\<close> has a file for the size, the
  payload is what \<^verbatim>\<open>ioutil.ReadFile\<close> returns for that file, byte for byte: nothing decodes,
  checks or re-encodes it. Otherwise the payload is the PNG encoding of the master image
  resized to the size.
\<close>

theorem ConvertToIcns_payload_sources:
  assumes run: "ConvertToIcns env inputInfo = (tr, Inr outFile)"
  shows "\<exists>payload.
           written outFile tr
             = icns_file (icns_body payload
                 (filter (\<lambda>sz. sz \<le> MaxIconSize inputInfo) icnsExpectedSizes))
         \<and> (\<forall>sz \<in> set (filter (\<lambda>sz. sz \<le> MaxIconSize inputInfo) icnsExpectedSizes).
              (case SizeToPath inputInfo sz of
                 Some existingFile \<Rightarrow> ioutil_ReadFile env existingFile = Inr (payload sz)
               | None \<Rightarrow>
                   (\<exists>master. masterOf env inputInfo = Some master
                      \<and> png_Encode env (imaging_Resize env master sz sz) = Inr (payload sz))))"
proof -
  define payload where "payload = (\<lambda>sz. the (payloadFor env inputInfo sz))"
  note f = ConvertToIcns_file [OF run, folded payload_def]
  have "case SizeToPath inputInfo sz of
          Some existingFile \<Rightarrow> ioutil_ReadFile env existingFile = Inr (payload sz)
        | None \<Rightarrow>
            (\<exists>master. masterOf env inputInfo = Some master
               \<and> png_Encode env (imaging_Resize env master sz sz) = Inr (payload sz))"
    if "sz \<in> set (filter (\<lambda>sz. sz \<le> MaxIconSize inputInfo) icnsExpectedSizes)" for sz
  proof -
    from f that obtain d where "payloadFor env inputInfo sz = Some d" by auto
    then show ?thesis
      by (auto simp: payload_def payloadFor_def split: option.splits sum.splits)
  qed
  with f show ?thesis by blast
qed

text \<open>The amended claim C7 on the icon directory: the payloads of 16 and 64 are the files,
  the payload of 32 is derived from the master.\<close>

theorem ConvertToIcns_payload_sources_witness:
  "ConvertToIcns sample_env dir_info = (fst (ConvertToIcns sample_env dir_info), Inr ''/tmp/out.icns'')
   \<and> (\<exists>payload.
           written ''/tmp/out.icns'' (fst (ConvertToIcns sample_env dir_info))
             = icns_file (icns_body payload
                 (filter (\<lambda>sz. sz \<le> MaxIconSize dir_info) icnsExpectedSizes))
         \<and> (\<forall>sz \<in> set (filter (\<lambda>sz. sz \<le> MaxIconSize dir_info) icnsExpectedSizes).
              (case SizeToPath dir_info sz of
                 Some existingFile \<Rightarrow> ioutil_ReadFile sample_env existingFile = Inr (payload sz)
               | None \<Rightarrow>
                   (\<exists>master. masterOf sample_env dir_info = Some master
                      \<and> png_Encode sample_env (imaging_Resize sample_env master sz sz) = Inr (payload sz)))))"
proof -
  have run: "ConvertToIcns sample_env dir_info
      = (fst (ConvertToIcns sample_env dir_info), Inr ''/tmp/out.icns'')"
    by (simp add: dir_run)
  from ConvertToIcns_payload_sources [OF run] run show ?thesis by (intro conjI)
qed

lemmas pipeline_defs = ConvertIcon_def ConvertIcon_file_def ConvertIcon_dir_def ConvertIcon_switch_def
  newInputInfo_def dirInputInfo_def
  resolveSourceFile_def resolveSourceFileOrNull_def outputFormatToSingleFileExtension_def
  strings_HasSuffix_def prepend_def loadImage_def GetMaxImage_def validateImageSize_def

text \<open>
  Claim C7 as stated fails: a single 512 pixel JPEG converted to ICNS is entered into
  \<^verbatim>\<open>SizeToPath\<close> under its own width, so the chunks of 512 (\<^verbatim>\<open>ic09\<close>, \<^verbatim>\<open>ic14\<close>) carry the
  bytes of the JPEG file as they are, and these do not start with the PNG signature.
\<close>

theorem ConvertIcon_jpeg_payload_counterexample:
  "snd (ConvertIcon sample_env [''icon.jpg''] [''/proj''] ''icns'')
     = Inr [\<lparr>File = ''/tmp/out.icns'', Size = 0\<rparr>]
   \<and> written ''/tmp/out.icns'' (fst (ConvertIcon sample_env [''icon.jpg''] [''/proj''] ''icns''))
     = icns_file (chunk ''icp4'' (png_signature @ [7])
         @ chunk ''icp5'' (png_signature @ [7]) @ chunk ''ic11'' (png_signature @ [7])
         @ chunk ''icp6'' (png_signature @ [7]) @ chunk ''ic12'' (png_signature @ [7])
         @ chunk ''ic07'' (png_signature @ [7])
         @ chunk ''ic08'' (png_signature @ [7]) @ chunk ''ic13'' (png_signature @ [7])
         @ chunk ''ic09'' jpeg_bytes @ chunk ''ic14'' jpeg_bytes)
   \<and> ioutil_ReadFile sample_env ''/proj/icon.jpg'' = Inr jpeg_bytes
   \<and> take 8 jpeg_bytes \<noteq> png_signature"
  by (simp add: pipeline_defs encoder_defs icns_file_def chunk_def sample_env_def square_def
      png_signature_def jpeg_bytes_def Let_def)

subsection \<open>The pipeline\<close>

lemma resolveInRoots_stats: "resolveInRoots env sourceFile roots = (tr, r) \<Longrightarrow> list_all isStat tr"
proof (induction roots arbitrary: tr r)
  case Nil
  then show ?case by simp
next
  case (Cons root roots)
  obtain t2 r2 where rest: "resolveInRoots env sourceFile roots = (t2, r2)"
    by (cases "resolveInRoots env sourceFile roots")
  from Cons.prems rest Cons.IH [OF rest] show ?case
    by (auto simp: Let_def split: sum.splits)
qed

lemma resolveSourceFileOrNull_stats:
  "resolveSourceFileOrNull env sourceFile roots = (tr, r) \<Longrightarrow> list_all isStat tr"
  by (auto simp: resolveSourceFileOrNull_def Let_def resolveInRoots_stats split: if_splits sum.splits)

lemma resolveCandidates_stats:
  "resolveCandidates env sourceFiles roots ext = (tr, r) \<Longrightarrow> list_all isStat tr"
proof (induction sourceFiles arbitrary: tr r)
  case Nil
  then show ?case by simp
next
  case (Cons sourceFile sourceFiles)
  obtain t1 r1 where a: "resolveSourceFileOrNull env sourceFile roots = (t1, r1)"
    by (cases "resolveSourceFileOrNull env sourceFile roots")
  obtain t3 r3 where c: "resolveCandidates env sourceFiles roots ext = (t3, r3)"
    by (cases "resolveCandidates env sourceFiles roots ext")
  define candidate where
    "candidate = (if ext = ''.png'' \<and> sourceFile = ''icons'' then ''icon.png'' else sourceFile @ ext)"
  obtain t2 r2 where b: "resolveSourceFileOrNull env candidate roots = (t2, r2)"
    by (cases "resolveSourceFileOrNull env candidate roots")
  note s1 = resolveSourceFileOrNull_stats [OF a]
  note s2 = resolveSourceFileOrNull_stats [OF b]
  note s3 = Cons.IH [OF c]
  from Cons.prems a b c s1 s2 s3 show ?case
    by (auto simp: Let_def candidate_def [symmetric] split: sum.splits option.splits if_splits)
qed

lemma resolveSourceFile_stats:
  "resolveSourceFile env sourceFiles roots ext = (tr, r) \<Longrightarrow> list_all isStat tr"
  by (auto simp: resolveSourceFile_def split: prod.splits sum.splits option.splits
      dest: resolveCandidates_stats)

text \<open>
  Claim C5. When the target format is \<^verbatim>\<open>icns\<close> and the resolved path ends in \<^verbatim>\<open>.icns\<close>,
  \<^verbatim>\<open>ConvertIcon\<close> returns that path, unchanged, as its single artifact, with the zero size
  of an \<^verbatim>\<open>IconInfo\<close> that has none. The run consists of the resolver's \<^verbatim>\<open>os.Stat\<close> probes
  and nothing else: no file is read, decoded or validated.
\<close>

theorem ConvertIcon_icns_passthrough:
  assumes res: "resolveSourceFile env sourceFiles roots ''.icns'' = (tr, Inr (resolvedPath, fileInfo))"
      and suffix: "strings_HasSuffix resolvedPath ''.icns''"
  shows "ConvertIcon env sourceFiles roots ''icns'' = (tr, Inr [\<lparr>File = resolvedPath, Size = 0\<rparr>])
       \<and> list_all isStat tr"
  using res suffix resolveSourceFile_stats [OF res]
  by (simp add: ConvertIcon_def outputFormatToSingleFileExtension_def Let_def)

lemma sample_resolve_app:
  "resolveSourceFile sample_env [''app''] [''/proj''] ''.icns''
     = ([EvStat ''/proj/app'', EvStat ''/proj/app.icns''], Inr (''/proj/app.icns'', \<lparr>IsDir = False\<rparr>))"
  by (simp add: resolveSourceFile_def resolveSourceFileOrNull_def sample_env_def Let_def)

text \<open>Claim C5 at a concrete run: the candidate \<^verbatim>\<open>app\<close> resolves through the fallback
  extension to \<^verbatim>\<open>/proj/app.icns\<close>, which is returned as it is.\<close>

theorem ConvertIcon_icns_passthrough_witness:
  "resolveSourceFile sample_env [''app''] [''/proj''] ''.icns''
     = ([EvStat ''/proj/app'', EvStat ''/proj/app.icns''], Inr (''/proj/app.icns'', \<lparr>IsDir = False\<rparr>))
   \<and> strings_HasSuffix ''/proj/app.icns'' ''.icns''
   \<and> ConvertIcon sample_env [''app''] [''/proj''] ''icns''
       = ([EvStat ''/proj/app'', EvStat ''/proj/app.icns''], Inr [\<lparr>File = ''/proj/app.icns'', Size = 0\<rparr>])
   \<and> list_all isStat [EvStat ''/proj/app'', EvStat ''/proj/app.icns'']"
proof -
  have suffix: "strings_HasSuffix ''/proj/app.icns'' ''.icns''"
    by (simp add: strings_HasSuffix_def)
  from ConvertIcon_icns_passthrough [OF sample_resolve_app suffix] sample_resolve_app suffix
  show ?thesis by (intro conjI) simp_all
qed

text \<open>
  Claim C4. When the resolved source is a single file that is loaded as the master (it is
  not a directory, its path does not end in the target extension, and it is not an
  \<^verbatim>\<open>.icns\<close> file under the \<^verbatim>\<open>set\<close> format) and the decoded image's \<^verbatim>\<open>Bounds().Max.X\<close> or
  \<^verbatim>\<open>Bounds().Max.Y\<close> is below the minimum of the format (512 for \<^verbatim>\<open>icns\<close>, 256 otherwise),
  \<^verbatim>\<open>ConvertIcon\<close> fails; the cause of the error is the image size error made of the file's
  path and that minimum; no artifact is returned; and the run consists of the resolver's
  probes and the one decode, so no output file is created or written. The rejection is
  \<^verbatim>\<open>loadImage\<close>'s own: it returns the size error for that file and minimum.
\<close>

theorem ConvertIcon_rejects_small_image:
  assumes res: "resolveSourceFile env sourceFiles roots (outputFormatToSingleFileExtension outputFormat)
                  = (tr, Inr (resolvedPath, fileInfo))"
      and nosuffix: "\<not> strings_HasSuffix resolvedPath (outputFormatToSingleFileExtension outputFormat)"
      and isfile: "\<not> IsDir fileInfo"
      and noextract: "\<not> (outputFormat = ''set'' \<and> strings_HasSuffix resolvedPath ''.icns'')"
      and decoded: "LoadImage env resolvedPath = Inr img"
      and small: "X (Max_pt (Bounds img)) < (if outputFormat = ''icns'' then 512 else 256)
                \<or> Y (Max_pt (Bounds img)) < (if outputFormat = ''icns'' then 512 else 256)"
  shows "(\<exists>err. ConvertIcon env sourceFiles roots outputFormat = (tr @ [EvLoadImage resolvedPath], Inl err)
             \<and> Cause err = ImageSizeError resolvedPath (if outputFormat = ''icns'' then 512 else 256))
       \<and> list_all isStat tr
       \<and> loadImage env resolvedPath (if outputFormat = ''icns'' then 512 else 256)
           = ([EvLoadImage resolvedPath],
              Inl (WithStack (ImageSizeError resolvedPath (if outputFormat = ''icns'' then 512 else 256))))"
proof -
  have load: "loadImage env resolvedPath (if outputFormat = ''icns'' then 512 else 256)
      = ([EvLoadImage resolvedPath],
         Inl (WithStack (ImageSizeError resolvedPath (if outputFormat = ''icns'' then 512 else 256))))"
    using decoded small by (simp add: loadImage_def)
  have "ConvertIcon_file env outputFormat (outputFormatToSingleFileExtension outputFormat) resolvedPath
          (newInputInfo outputFormat)
      = ([EvLoadImage resolvedPath],
         Inl (WithStack (WithStack (ImageSizeError resolvedPath (if outputFormat = ''icns'' then 512 else 256)))))"
    using noextract load by (auto simp: ConvertIcon_file_def newInputInfo_def)
  then have "ConvertIcon env sourceFiles roots outputFormat
      = (tr @ [EvLoadImage resolvedPath],
         Inl (WithStack (WithStack (ImageSizeError resolvedPath (if outputFormat = ''icns'' then 512 else 256)))))"
    using res nosuffix isfile by (simp add: ConvertIcon_def Let_def prepend_def)
  with resolveSourceFile_stats [OF res] load show ?thesis by simp
qed

lemma sample_resolve_small:
  "resolveSourceFile sample_env [''small.png''] [''/proj''] ''.ico''
     = ([EvStat ''/proj/small.png''], Inr (''/proj/small.png'', \<lparr>IsDir = False\<rparr>))"
  by (simp add: resolveSourceFile_def resolveSourceFileOrNull_def sample_env_def Let_def)

text \<open>Claim C4 at the spec's example: a 128 by 128 source requested as ICO fails with the
  size error of its path and the minimum 256, after one probe and one decode.\<close>

theorem ConvertIcon_rejects_small_image_witness:
  "LoadImage sample_env ''/proj/small.png'' = Inr \<lparr>Bounds = square 128, Pix = [8]\<rparr>
   \<and> (\<exists>err. ConvertIcon sample_env [''small.png''] [''/proj''] ''ico''
               = ([EvStat ''/proj/small.png''] @ [EvLoadImage ''/proj/small.png''], Inl err)
            \<and> Cause err = ImageSizeError ''/proj/small.png'' 256)"
proof -
  have res: "resolveSourceFile sample_env [''small.png''] [''/proj'']
               (outputFormatToSingleFileExtension ''ico'')
             = ([EvStat ''/proj/small.png''], Inr (''/proj/small.png'', \<lparr>IsDir = False\<rparr>))"
    by (simp add: outputFormatToSingleFileExtension_def sample_resolve_small)
  have nosuffix: "\<not> strings_HasSuffix ''/proj/small.png'' (outputFormatToSingleFileExtension ''ico'')"
    by (simp add: strings_HasSuffix_def outputFormatToSingleFileExtension_def)
  have isfile: "\<not> IsDir \<lparr>IsDir = False\<rparr>" by simp
  have noextract: "\<not> (''ico'' = ''set'' \<and> strings_HasSuffix ''/proj/small.png'' ''.icns'')" by simp
  have decoded: "LoadImage sample_env ''/proj/small.png'' = Inr \<lparr>Bounds = square 128, Pix = [8]\<rparr>"
    by (simp add: sample_env_def)
  have small: "X (Max_pt (Bounds \<lparr>Bounds = square 128, Pix = [8]\<rparr>)) < (if ''ico'' = ''icns'' then 512 else 256)
             \<or> Y (Max_pt (Bounds \<lparr>Bounds = square 128, Pix = [8]\<rparr>)) < (if ''ico'' = ''icns'' then 512 else 256)"
    by (simp add: square_def)
  from ConvertIcon_rejects_small_image [OF res nosuffix isfile noextract decoded small] decoded
  show ?thesis by simp
qed







text \<open>
  Claim C9, as amended. A conversion whose format is neither \<^verbatim>\<open>icns\<close> nor \<^verbatim>\<open>ico\<close> fails with
  an \<^verbatim>\<open>unknown output format\<close> error, returning no artifact and creating no output file
  (its events are the resolver's probes and one collection or decode), when it reaches the
  format switch: the source resolves, its path does not end in the
  target extension, and either it is a directory whose icons are collected (at least one,
  and the format is not \<^verbatim>\<open>set\<close>) or it is a single file that is not an \<^verbatim>\<open>.icns\<close> file under
  \<^verbatim>\<open>set\<close> and that decodes to an image of at least 256 by 256. The failure is not immediate:
  the run has by then probed the file system and collected the icons or decoded the image.
\<close>

theorem ConvertIcon_unknown_format:
  assumes res: "resolveSourceFile env sourceFiles roots (outputFormatToSingleFileExtension outputFormat)
                  = (tr, Inr (resolvedPath, fileInfo))"
      and nosuffix: "\<not> strings_HasSuffix resolvedPath (outputFormatToSingleFileExtension outputFormat)"
      and noicns: "outputFormat \<noteq> ''icns''"
      and noico: "outputFormat \<noteq> ''ico''"
      and reach: "(IsDir fileInfo \<and> outputFormat \<noteq> ''set''
                     \<and> (\<exists>icons. CollectIcons env resolvedPath = Inr icons \<and> icons \<noteq> []))
                \<or> (\<not> IsDir fileInfo
                     \<and> \<not> (outputFormat = ''set'' \<and> strings_HasSuffix resolvedPath ''.icns'')
                     \<and> (\<exists>img. LoadImage env resolvedPath = Inr img
                            \<and> 256 \<le> X (Max_pt (Bounds img)) \<and> 256 \<le> Y (Max_pt (Bounds img))))"
  shows "(\<exists>msg. ConvertIcon env sourceFiles roots outputFormat
           = (tr @ [if IsDir fileInfo then EvCollectIcons resolvedPath else EvLoadImage resolvedPath],
              Inl (Errorf (''unknown output format '' @ msg))))
       \<and> list_all isStat tr"
proof -
  note stats = resolveSourceFile_stats [OF res]
  have sw: "ConvertIcon_switch env outputFormat ext resolvedPath info
      = ([], Inl (Errorf (''unknown output format '' @ resolvedPath)))" for ext info
    using noicns noico by (simp add: ConvertIcon_switch_def)
  from reach show ?thesis
  proof
    assume a: "IsDir fileInfo \<and> outputFormat \<noteq> ''set''
                 \<and> (\<exists>icons. CollectIcons env resolvedPath = Inr icons \<and> icons \<noteq> [])"
    then obtain icons where "CollectIcons env resolvedPath = Inr icons" "icons \<noteq> []" by blast
    with a res nosuffix stats show ?thesis
      by (simp add: ConvertIcon_def ConvertIcon_dir_def Let_def prepend_def sw)
  next
    assume b: "\<not> IsDir fileInfo
                 \<and> \<not> (outputFormat = ''set'' \<and> strings_HasSuffix resolvedPath ''.icns'')
                 \<and> (\<exists>img. LoadImage env resolvedPath = Inr img
                        \<and> 256 \<le> X (Max_pt (Bounds img)) \<and> 256 \<le> Y (Max_pt (Bounds img)))"
    then obtain img where img: "LoadImage env resolvedPath = Inr img"
      "256 \<le> X (Max_pt (Bounds img))" "256 \<le> Y (Max_pt (Bounds img))" by blast
    have load: "loadImage env resolvedPath 256 = ([EvLoadImage resolvedPath], Inr img)"
      using img by (simp add: loadImage_def)
    have "ConvertIcon_file env outputFormat (outputFormatToSingleFileExtension outputFormat)
            resolvedPath (newInputInfo outputFormat)
        = ([EvLoadImage resolvedPath], Inl (Errorf (''unknown output format '' @ resolvedPath)))"
      using b load noicns
      by (auto simp: ConvertIcon_file_def newInputInfo_def Let_def prepend_def sw)
    with b res nosuffix stats show ?thesis
      by (simp add: ConvertIcon_def Let_def prepend_def)
  qed
qed

lemma sample_resolve_jpg:
  "resolveSourceFile sample_env [''icon.jpg''] [''/proj''] ''.xyz''
     = ([EvStat ''/proj/icon.jpg''], Inr (''/proj/icon.jpg'', \<lparr>IsDir = False\<rparr>))"
  by (simp add: resolveSourceFile_def resolveSourceFileOrNull_def sample_env_def Let_def)

text \<open>The amended claim C9 at a concrete run: a 512 pixel image requested in the format
  \<^verbatim>\<open>xyz\<close>.\<close>

theorem ConvertIcon_unknown_format_witness:
  "resolveSourceFile sample_env [''icon.jpg''] [''/proj''] (outputFormatToSingleFileExtension ''xyz'')
     = ([EvStat ''/proj/icon.jpg''], Inr (''/proj/icon.jpg'', \<lparr>IsDir = False\<rparr>))
   \<and> LoadImage sample_env ''/proj/icon.jpg'' = Inr \<lparr>Bounds = square 512, Pix = [7]\<rparr>
   \<and> (\<exists>msg. ConvertIcon sample_env [''icon.jpg''] [''/proj''] ''xyz''
         = ([EvStat ''/proj/icon.jpg''] @ [EvLoadImage ''/proj/icon.jpg''],
            Inl (Errorf (''unknown output format '' @ msg))))"
proof -
  have res: "resolveSourceFile sample_env [''icon.jpg''] [''/proj''] (outputFormatToSingleFileExtension ''xyz'')
     = ([EvStat ''/proj/icon.jpg''], Inr (''/proj/icon.jpg'', \<lparr>IsDir = False\<rparr>))"
    by (simp add: outputFormatToSingleFileExtension_def sample_resolve_jpg)
  have nosuffix: "\<not> strings_HasSuffix ''/proj/icon.jpg'' (outputFormatToSingleFileExtension ''xyz'')"
    by (simp add: strings_HasSuffix_def outputFormatToSingleFileExtension_def)
  have noicns: "''xyz'' \<noteq> ''icns''" by simp
  have noico: "''xyz'' \<noteq> ''ico''" by simp
  have decoded: "LoadImage sample_env ''/proj/icon.jpg'' = Inr \<lparr>Bounds = square 512, Pix = [7]\<rparr>"
    by (simp add: sample_env_def)
  have reach: "(IsDir \<lparr>IsDir = False\<rparr> \<and> ''xyz'' \<noteq> ''set''
                     \<and> (\<exists>icons. CollectIcons sample_env ''/proj/icon.jpg'' = Inr icons \<and> icons \<noteq> []))
                \<or> (\<not> IsDir \<lparr>IsDir = False\<rparr>
                     \<and> \<not> (''xyz'' = ''set'' \<and> strings_HasSuffix ''/proj/icon.jpg'' ''.icns'')
                     \<and> (\<exists>img. LoadImage sample_env ''/proj/icon.jpg'' = Inr img
                            \<and> 256 \<le> X (Max_pt (Bounds img)) \<and> 256 \<le> Y (Max_pt (Bounds img))))"
    by (simp add: decoded square_def)
  from ConvertIcon_unknown_format [OF res nosuffix noicns noico reach] res decoded
  show ?thesis by simp
qed

text \<open>
  Claim C9 as stated fails. A 128 pixel image requested in the unrecognized format \<^verbatim>\<open>xyz\<close>
  fails with the image size error, not with an unsupported-format error: the size check of
  the decode comes before the format switch. And where the switch is reached, the error's
  message is made of the resolved path alone and does not name the requested format.
\<close>

theorem ConvertIcon_unknown_format_counterexample:
  "ConvertIcon sample_env [''small.png''] [''/proj''] ''xyz''
     = ([EvStat ''/proj/small.png'', EvLoadImage ''/proj/small.png''],
        Inl (WithStack (WithStack (ImageSizeError ''/proj/small.png'' 256))))
   \<and> ConvertIcon sample_env [''icon.jpg''] [''/proj''] ''xyz''
     = ([EvStat ''/proj/icon.jpg'', EvLoadImage ''/proj/icon.jpg''],
        Inl (Errorf ''unknown output format /proj/icon.jpg''))"
  by (simp add: pipeline_defs sample_env_def square_def Let_def)

text \<open>
  Claim C3 does not hold of the code. The candidates are an absolute path that does not
  exist and then a relative name that exists under the root. The claim lets resolution go
  on to the fallback-extension variant and to the second candidate, which resolves; the
  code stops at the first candidate with the error of its \<^verbatim>\<open>os.Stat\<close>, after a single
  probe. With the first candidate relative instead, the same search does go on and finds
  the second candidate.
\<close>

theorem resolveSourceFile_absolute_candidate_aborts:
  "resolveSourceFile sample_env [''/abs/missing.png'', ''icon.jpg''] [''/proj''] ''.icns''
     = ([EvStat ''/abs/missing.png''],
        Inl (WithStack (WithStack (External ''no such file or directory''))))
   \<and> resolveSourceFile sample_env [''missing.png'', ''icon.jpg''] [''/proj''] ''.icns''
     = ([EvStat ''/proj/missing.png'', EvStat ''/proj/missing.png.icns'', EvStat ''/proj/icon.jpg''],
        Inr (''/proj/icon.jpg'', \<lparr>IsDir = False\<rparr>))"
  by (simp add: resolveSourceFile_def resolveSourceFileOrNull_def sample_env_def Let_def)

lemma loads_append: "loads (a @ b) = loads a + loads b"
  by (simp add: loads_def)

lemma loads_stats: "list_all isStat tr \<Longrightarrow> loads tr = 0"
proof (induction tr)
  case Nil
  then show ?case by (simp add: loads_def)
next
  case (Cons e tr)
  then show ?case by (cases e) (simp_all add: loads_def)
qed

lemma imageDataFor_loads:
  "imageDataFor env inputInfo sz = (tr, r) \<Longrightarrow>
     loads tr + (case r of Inl e \<Rightarrow> 0 | Inr (inputInfo', d) \<Rightarrow> decodesLeft inputInfo') \<le> decodesLeft inputInfo"
  by (auto simp: imageDataFor_def loads_def decodesLeft_def split: option.splits sum.splits)

lemma icnsLoop_loads:
  "icnsLoop env sizes inputInfo icns = (tr, r) \<Longrightarrow> loads tr \<le> decodesLeft inputInfo"
proof (induction sizes arbitrary: inputInfo icns tr r)
  case Nil
  then show ?case by (simp add: loads_def)
next
  case (Cons sz sizes)
  show ?case
  proof (cases "sz > MaxIconSize inputInfo")
    case True
    with Cons.prems Cons.IH show ?thesis by simp
  next
    case False
    obtain t1 r1 where step: "imageDataFor env inputInfo sz = (t1, r1)"
      by (cases "imageDataFor env inputInfo sz")
    note l1 = imageDataFor_loads [OF step]
    show ?thesis
    proof (cases r1)
      case (Inl e)
      with Cons.prems False step l1 show ?thesis by simp
    next
      case (Inr a)
      obtain info1 d where a: "a = (info1, d)" by (cases a)
      obtain t2 r2 where rest: "icnsLoop env sizes info1 (writeChunks sz d icns) = (t2, r2)"
        by (cases "icnsLoop env sizes info1 (writeChunks sz d icns)")
      from Cons.prems False step Inr a rest have "tr = t1 @ t2" by simp
      with l1 Inr a Cons.IH [OF rest] show ?thesis by (simp add: loads_append)
    qed
  qed
qed

lemma ConvertToIcns_loads: "loads (fst (ConvertToIcns env inputInfo)) \<le> decodesLeft inputInfo"
proof -
  obtain tr0 r0 where loop: "icnsLoop env icnsExpectedSizes inputInfo [] = (tr0, r0)"
    by (cases "icnsLoop env icnsExpectedSizes inputInfo []")
  have "loads (fst (ConvertToIcns env inputInfo)) = loads tr0"
    using loop
    by (auto simp: ConvertToIcns_def Let_def loads_append split: sum.splits) (simp_all add: loads_def)
  with icnsLoop_loads [OF loop] show ?thesis by simp
qed

lemma loadImage_loads: "loads (fst (loadImage env sourceFile minSize)) = 1"
  by (simp add: loadImage_def loads_def split: sum.splits)

lemma GetMaxImage_loads: "loads (fst (GetMaxImage env inputInfo)) \<le> decodesLeft inputInfo"
proof (cases "maxImage inputInfo")
  case None
  obtain t r where l: "loadImage env (MaxIconPath inputInfo) (recommendedMinSize inputInfo) = (t, r)"
    by (cases "loadImage env (MaxIconPath inputInfo) (recommendedMinSize inputInfo)")
  with loadImage_loads [of env "MaxIconPath inputInfo" "recommendedMinSize inputInfo"]
  have "loads t = 1" by simp
  with None l show ?thesis
    by (simp add: GetMaxImage_def decodesLeft_def split: sum.splits)
next
  case (Some img)
  then show ?thesis by (simp add: GetMaxImage_def loads_def)
qed

lemma ConvertIcon_switch_loads:
  "loads (fst (ConvertIcon_switch env outputFormat outExt resolvedPath inputInfo)) \<le> decodesLeft inputInfo"
proof -
  obtain t1 r1 where a: "ConvertToIcns env inputInfo = (t1, r1)" by (cases "ConvertToIcns env inputInfo")
  obtain t2 r2 where b: "GetMaxImage env inputInfo = (t2, r2)" by (cases "GetMaxImage env inputInfo")
  from ConvertToIcns_loads [of env inputInfo] a have l1: "loads t1 \<le> decodesLeft inputInfo" by simp
  from GetMaxImage_loads [of env inputInfo] b have l2: "loads t2 \<le> decodesLeft inputInfo" by simp
  show ?thesis
    using a b l1 l2
    by (auto simp: ConvertIcon_switch_def loads_append split: sum.splits) (simp_all add: loads_def)
qed

lemma fst_prepend: "fst (prepend t m) = t @ fst m"
  by (cases m) (simp add: prepend_def)

lemma ConvertIcon_dir_loads:
  "loads (fst (ConvertIcon_dir env outputFormat outExt resolvedPath (newInputInfo outputFormat))) \<le> 1"
proof -
  have "decodesLeft (dirInputInfo (newInputInfo outputFormat) icons) = 1" for icons
    by (simp add: decodesLeft_def dirInputInfo_def newInputInfo_def Let_def)
  with ConvertIcon_switch_loads [of env outputFormat outExt resolvedPath]
  have "loads (fst (ConvertIcon_switch env outputFormat outExt resolvedPath
                  (dirInputInfo (newInputInfo outputFormat) icons))) \<le> 1" for icons
    by metis
  then show ?thesis
    by (auto simp: ConvertIcon_dir_def fst_prepend loads_append split: sum.splits)
       (simp_all add: loads_def)
qed

lemma ConvertIcon_file_loads:
  "loads (fst (ConvertIcon_file env outputFormat outExt resolvedPath inputInfo)) \<le> 1"
proof -
  obtain t r where l: "loadImage env resolvedPath (recommendedMinSize inputInfo) = (t, r)"
    by (cases "loadImage env resolvedPath (recommendedMinSize inputInfo)")
  with loadImage_loads [of env resolvedPath "recommendedMinSize inputInfo"]
  have t: "loads t = 1" by simp
  have sw: "loads (fst (ConvertIcon_switch env outputFormat outExt resolvedPath info)) = 0"
    if "maxImage info = Some img" for info img
    using ConvertIcon_switch_loads [of env outputFormat outExt resolvedPath info] that
    by (simp add: decodesLeft_def)
  show ?thesis
    using l t
    by (auto simp: ConvertIcon_file_def Let_def fst_prepend loads_append sw split: sum.splits)
       (simp_all add: loads_def)
qed

lemma validateImageSize_loads: "loads (fst (validateImageSize env f m)) = 0"
  by (auto simp: validateImageSize_def loads_def split: sum.splits prod.splits)

text \<open>
  Claim C8. A conversion run decodes the master image at most once: the events of
  \<^verbatim>\<open>ConvertIcon\<close> hold at most one image decode, whatever the source and the format and
  however many sizes are derived. Inside the encoder, a run of \<^verbatim>\<open>ConvertToIcns\<close> decodes at
  most once when it starts without a cached master and never when it starts with one: the
  first size derived from the master stores the decoded image in the input info, and the
  later sizes use it. \<^verbatim>\<open>GetMaxImage\<close> on an input info that holds a cached image returns that
  image and decodes nothing.
\<close>

theorem master_image_decoded_at_most_once:
  "loads (fst (ConvertIcon env sourceFiles roots outputFormat)) \<le> 1
   \<and> loads (fst (ConvertToIcns env inputInfo)) \<le> (case maxImage inputInfo of None \<Rightarrow> 1 | Some cached \<Rightarrow> 0)
   \<and> GetMaxImage env (inputInfo\<lparr>maxImage := Some img\<rparr>) = ([], Inr img)"
proof -
  obtain tr r where res: "resolveSourceFile env sourceFiles roots
      (outputFormatToSingleFileExtension outputFormat) = (tr, r)"
    by (cases "resolveSourceFile env sourceFiles roots (outputFormatToSingleFileExtension outputFormat)")
  have tr: "loads tr = 0"
    by (rule loads_stats) (rule resolveSourceFile_stats [OF res])
  have a: "loads (fst (ConvertIcon env sourceFiles roots outputFormat)) \<le> 1"
  proof (cases r)
    case (Inl e)
    with res tr show ?thesis by (simp add: ConvertIcon_def Let_def)
  next
    case (Inr found)
    obtain resolvedPath fileInfo where found: "found = (resolvedPath, fileInfo)" by (cases found)
    obtain t2 r2 where v: "validateImageSize env resolvedPath
        (recommendedMinSize (newInputInfo outputFormat)) = (t2, r2)"
      by (cases "validateImageSize env resolvedPath (recommendedMinSize (newInputInfo outputFormat))")
    with validateImageSize_loads [of env resolvedPath "recommendedMinSize (newInputInfo outputFormat)"]
    have t2: "loads t2 = 0" by simp
    from res Inr found tr v t2
      ConvertIcon_dir_loads [of env outputFormat "outputFormatToSingleFileExtension outputFormat" resolvedPath]
      ConvertIcon_file_loads [of env outputFormat "outputFormatToSingleFileExtension outputFormat" resolvedPath "newInputInfo outputFormat"]
    show ?thesis
      by (auto simp: ConvertIcon_def Let_def fst_prepend loads_append split: sum.splits)
  qed
  have b: "loads (fst (ConvertToIcns env inputInfo)) \<le> (case maxImage inputInfo of None \<Rightarrow> 1 | Some cached \<Rightarrow> 0)"
    using ConvertToIcns_loads [of env inputInfo] by (simp add: decodesLeft_def)
  have c: "GetMaxImage env (inputInfo\<lparr>maxImage := Some img\<rparr>) = ([], Inr img)"
    by (simp add: GetMaxImage_def)
  from a b c show ?thesis by blast
qed

text \<open>
  Claim C6, as amended. In a single-image conversion to \<^verbatim>\<open>ico\<close> (the resolved file is not a
  directory and does not end in \<^verbatim>\<open>.ico\<close>) the run is fixed by the decoded image. If its
  \<^verbatim>\<open>Bounds().Max.X\<close> or \<^verbatim>\<open>Bounds().Max.Y\<close> is below 256, the run ends after the decode with
  the image size error and nothing reaches the ICO encoder. Otherwise the output file is
  created and the image handed to the ICO encoder \<^verbatim>\<open>SaveImage2\<close> is
  \<^verbatim>\<open>imaging.Resize(img, 256, 256)\<close> when the decoded \<^verbatim>\<open>Bounds().Max.X\<close> exceeds 256, and the
  decoded image itself when it is exactly 256. In every run, whatever the image, an image
  handed to \<^verbatim>\<open>SaveImage2\<close> is that one. Given that the resize returns an image of the
  requested bounds, the encoder's input for a wider master is exactly 256 by 256.
\<close>

theorem ConvertIcon_ico_cap:
  assumes res: "resolveSourceFile env sourceFiles roots ''.ico'' = (tr, Inr (resolvedPath, fileInfo))"
      and nosuffix: "\<not> strings_HasSuffix resolvedPath ''.ico''"
      and isfile: "\<not> IsDir fileInfo"
      and decoded: "LoadImage env resolvedPath = Inr img"
      and resize: "Bounds (imaging_Resize env img 256 256) = square 256"
  shows "\<exists>encoded.
           encoded = (if X (Max_pt (Bounds img)) > 256 then imaging_Resize env img 256 256 else img)
         \<and> (if X (Max_pt (Bounds img)) > 256 then Bounds encoded = square 256
             else Bounds encoded = Bounds img)
         \<and> ConvertIcon env sourceFiles roots ''ico''
             = (if X (Max_pt (Bounds img)) < 256 \<or> Y (Max_pt (Bounds img)) < 256
                then (tr @ [EvLoadImage resolvedPath],
                      Inl (WithStack (WithStack (ImageSizeError resolvedPath 256))))
                else
                  (case util_TempFile env [] ''.ico'' of
                     Inl err \<Rightarrow>
                       (tr @ [EvLoadImage resolvedPath, EvTempFile ''.ico''],
                        Inl (WithStack (External err)))
                   | Inr outFile \<Rightarrow>
                       (tr @ [EvLoadImage resolvedPath, EvTempFile ''.ico'',
                              EvSaveImage2 encoded outFile],
                        case SaveImage2 env encoded outFile of
                          Inl err \<Rightarrow> Inl (WithStack (External err))
                        | Inr u \<Rightarrow> Inr [\<lparr>File = outFile, Size = 0\<rparr>])))
         \<and> (\<forall>handed outFile.
               EvSaveImage2 handed outFile \<in> set (fst (ConvertIcon env sourceFiles roots ''ico''))
               \<longrightarrow> handed = encoded \<and> 256 \<le> X (Max_pt (Bounds img)) \<and> 256 \<le> Y (Max_pt (Bounds img)))
         \<and> list_all isStat tr"
proof -
  define encoded where
    "encoded = (if X (Max_pt (Bounds img)) > 256 then imaging_Resize env img 256 256 else img)"
  note stats = resolveSourceFile_stats [OF res]
  have nosave: "EvSaveImage2 handed outFile \<notin> set tr" for handed outFile
  proof
    assume "EvSaveImage2 handed outFile \<in> set tr"
    with stats have "isStat (EvSaveImage2 handed outFile)" unfolding list_all_iff by blast
    then show False by simp
  qed
  have top: "ConvertIcon env sourceFiles roots ''ico''
      = prepend tr (ConvertIcon_file env ''ico'' ''.ico'' resolvedPath (newInputInfo ''ico''))"
    using res nosuffix isfile
    by (simp add: ConvertIcon_def outputFormatToSingleFileExtension_def Let_def)
  have sw: "ConvertIcon_switch env ''ico'' ''.ico'' resolvedPath
              (newInputInfo ''ico''
                 \<lparr>MaxIconSize := X (Max_pt (Bounds encoded)), maxImage := Some encoded,
                  SizeToPath := (SizeToPath (newInputInfo ''ico''))(X (Max_pt (Bounds encoded)) \<mapsto> resolvedPath)\<rparr>)
            = (case util_TempFile env [] ''.ico'' of
                 Inl err \<Rightarrow> ([EvTempFile ''.ico''], Inl (WithStack (External err)))
               | Inr outFile \<Rightarrow>
                   ([EvTempFile ''.ico'', EvSaveImage2 encoded outFile],
                    case SaveImage2 env encoded outFile of
                      Inl err \<Rightarrow> Inl (WithStack (External err))
                    | Inr u \<Rightarrow> Inr [\<lparr>File = outFile, Size = 0\<rparr>]))"
    by (simp add: ConvertIcon_switch_def GetMaxImage_def split: sum.splits)
  have run: "ConvertIcon env sourceFiles roots ''ico''
             = (if X (Max_pt (Bounds img)) < 256 \<or> Y (Max_pt (Bounds img)) < 256
                then (tr @ [EvLoadImage resolvedPath],
                      Inl (WithStack (WithStack (ImageSizeError resolvedPath 256))))
                else
                  (case util_TempFile env [] ''.ico'' of
                     Inl err \<Rightarrow>
                       (tr @ [EvLoadImage resolvedPath, EvTempFile ''.ico''],
                        Inl (WithStack (External err)))
                   | Inr outFile \<Rightarrow>
                       (tr @ [EvLoadImage resolvedPath, EvTempFile ''.ico'',
                              EvSaveImage2 encoded outFile],
                        case SaveImage2 env encoded outFile of
                          Inl err \<Rightarrow> Inl (WithStack (External err))
                        | Inr u \<Rightarrow> Inr [\<lparr>File = outFile, Size = 0\<rparr>])))"
  proof (cases "X (Max_pt (Bounds img)) < 256 \<or> Y (Max_pt (Bounds img)) < 256")
    case True
    then have "loadImage env resolvedPath 256
        = ([EvLoadImage resolvedPath], Inl (WithStack (ImageSizeError resolvedPath 256)))"
      using decoded by (simp add: loadImage_def)
    with True show ?thesis
      by (simp add: top ConvertIcon_file_def newInputInfo_def prepend_def)
  next
    case False
    then have "loadImage env resolvedPath 256 = ([EvLoadImage resolvedPath], Inr img)"
      using decoded by (simp add: loadImage_def)
    with False sw show ?thesis
      by (simp add: top ConvertIcon_file_def newInputInfo_def Let_def prepend_def encoded_def
          split: sum.splits)
  qed
  have only: "handed = encoded \<and> 256 \<le> X (Max_pt (Bounds img)) \<and> 256 \<le> Y (Max_pt (Bounds img))"
    if "EvSaveImage2 handed outFile \<in> set (fst (ConvertIcon env sourceFiles roots ''ico''))"
    for handed outFile
    using that nosave [of handed outFile]
    by (auto simp: run split: if_splits sum.splits)
  have b: "if X (Max_pt (Bounds img)) > 256 then Bounds encoded = square 256
           else Bounds encoded = Bounds img"
    using resize by (simp add: encoded_def)
  from run b only stats show ?thesis
    by (intro exI [of _ encoded]) (simp add: encoded_def)
qed

lemma sample_resolve_big:
  "resolveSourceFile sample_env [''big.png''] [''/proj''] ''.ico''
     = ([EvStat ''/proj/big.png''], Inr (''/proj/big.png'', \<lparr>IsDir = False\<rparr>))"
  by (simp add: resolveSourceFile_def resolveSourceFileOrNull_def sample_env_def Let_def)

text \<open>The amended claim C6 at the spec's example: a master of 1024 pixels requested as ICO
  reaches the encoder as an image of exactly 256 by 256.\<close>

theorem ConvertIcon_ico_cap_witness:
  "LoadImage sample_env ''/proj/big.png'' = Inr \<lparr>Bounds = square 1024, Pix = [9]\<rparr>
   \<and> (\<exists>encoded.
         ConvertIcon sample_env [''big.png''] [''/proj''] ''ico''
           = ([EvStat ''/proj/big.png'', EvLoadImage ''/proj/big.png'', EvTempFile ''.ico'',
               EvSaveImage2 encoded ''/tmp/out.ico''],
              Inr [\<lparr>File = ''/tmp/out.ico'', Size = 0\<rparr>])
       \<and> encoded = imaging_Resize sample_env \<lparr>Bounds = square 1024, Pix = [9]\<rparr> 256 256
       \<and> Bounds encoded = square 256)"
proof -
  have nosuffix: "\<not> strings_HasSuffix ''/proj/big.png'' ''.ico''"
    by (simp add: strings_HasSuffix_def)
  have isfile: "\<not> IsDir \<lparr>IsDir = False\<rparr>" by simp
  have decoded: "LoadImage sample_env ''/proj/big.png'' = Inr \<lparr>Bounds = square 1024, Pix = [9]\<rparr>"
    by (simp add: sample_env_def)
  have resize: "Bounds (imaging_Resize sample_env \<lparr>Bounds = square 1024, Pix = [9]\<rparr> 256 256) = square 256"
    by (simp add: sample_env_def square_def)
  have temp: "util_TempFile sample_env [] ''.ico'' = Inr ''/tmp/out.ico''"
    by (simp add: sample_env_def)
  have save: "SaveImage2 sample_env i name = Inr ()" for i name
    by (simp add: sample_env_def)
  from ConvertIcon_ico_cap [OF sample_resolve_big nosuffix isfile decoded resize]
  obtain encoded where
    e: "encoded = (if X (Max_pt (Bounds \<lparr>Bounds = square 1024, Pix = [9]\<rparr>)) > 256
                   then imaging_Resize sample_env \<lparr>Bounds = square 1024, Pix = [9]\<rparr> 256 256
                   else \<lparr>Bounds = square 1024, Pix = [9]\<rparr>)" and
    b: "if X (Max_pt (Bounds \<lparr>Bounds = square 1024, Pix = [9]\<rparr>)) > 256 then Bounds encoded = square 256
        else Bounds encoded = Bounds \<lparr>Bounds = square 1024, Pix = [9]\<rparr>" and
    r: "ConvertIcon sample_env [''big.png''] [''/proj''] ''ico''
             = (if X (Max_pt (Bounds \<lparr>Bounds = square 1024, Pix = [9]\<rparr>)) < 256
                   \<or> Y (Max_pt (Bounds \<lparr>Bounds = square 1024, Pix = [9]\<rparr>)) < 256
                then ([EvStat ''/proj/big.png''] @ [EvLoadImage ''/proj/big.png''],
                      Inl (WithStack (WithStack (ImageSizeError ''/proj/big.png'' 256))))
                else
                  (case util_TempFile sample_env [] ''.ico'' of
                     Inl err \<Rightarrow>
                       ([EvStat ''/proj/big.png''] @ [EvLoadImage ''/proj/big.png'', EvTempFile ''.ico''],
                        Inl (WithStack (External err)))
                   | Inr outFile \<Rightarrow>
                       ([EvStat ''/proj/big.png''] @ [EvLoadImage ''/proj/big.png'', EvTempFile ''.ico'',
                              EvSaveImage2 encoded outFile],
                        case SaveImage2 sample_env encoded outFile of
                          Inl err \<Rightarrow> Inl (WithStack (External err))
                        | Inr u \<Rightarrow> Inr [\<lparr>File = outFile, Size = 0\<rparr>])))"
    by blast
  have w: "X (Max_pt (square 1024)) = 1024" "Y (Max_pt (square 1024)) = 1024"
    by (simp_all add: square_def)
  from e b r have "ConvertIcon sample_env [''big.png''] [''/proj''] ''ico''
           = ([EvStat ''/proj/big.png'', EvLoadImage ''/proj/big.png'', EvTempFile ''.ico'',
               EvSaveImage2 encoded ''/tmp/out.ico''],
              Inr [\<lparr>File = ''/tmp/out.ico'', Size = 0\<rparr>])
       \<and> encoded = imaging_Resize sample_env \<lparr>Bounds = square 1024, Pix = [9]\<rparr> 256 256
       \<and> Bounds encoded = square 256"
    by (simp add: w temp save)
  with decoded show ?thesis by blast
qed

text \<open>
  Claim C6 as stated fails in its last clause and where the height is short. A master 128
  pixels wide, so of width 256 or less, requested as ICO is not passed to the encoder at
  its native size: the run ends with the image size error after the decode, and no image
  is handed to \<^verbatim>\<open>SaveImage2\<close>. A master of 1024 by 100 pixels, wider than 256, is rejected
  in the same way and is neither resized nor encoded.
\<close>

theorem ConvertIcon_ico_cap_counterexample:
  "LoadImage sample_env ''/proj/small.png'' = Inr \<lparr>Bounds = square 128, Pix = [8]\<rparr>
   \<and> ConvertIcon sample_env [''small.png''] [''/proj''] ''ico''
       = ([EvStat ''/proj/small.png'', EvLoadImage ''/proj/small.png''],
          Inl (WithStack (WithStack (ImageSizeError ''/proj/small.png'' 256))))
   \<and> LoadImage banner_env ''/proj/banner.png''
       = Inr \<lparr>Bounds = \<lparr>Min_pt = \<lparr>X = 0, Y = 0\<rparr>, Max_pt = \<lparr>X = 1024, Y = 100\<rparr>\<rparr>, Pix = [5]\<rparr>
   \<and> ConvertIcon banner_env [''banner.png''] [''/proj''] ''ico''
       = ([EvStat ''/proj/banner.png'', EvLoadImage ''/proj/banner.png''],
          Inl (WithStack (WithStack (ImageSizeError ''/proj/banner.png'' 256))))"
  by (simp add: pipeline_defs banner_env_def sample_env_def square_def Let_def)













end
